theory Spec2Isabelle
  imports Complex_Main "HOL-Library.Sublist" "HOL-Library.AList"
begin

section \<open>Python values used by the analysis script\<close>

text \<open>
  Exceptions of the script are values: a computation that can raise returns
  \<open>py_error + 'a\<close>, with \<open>Inl\<close> for the exception that leaves the function
  (nothing in the script catches one).
\<close>

datatype py_error = IndexError | ValueError | ZeroDivisionError

definition ebind :: "py_error + 'a \<Rightarrow> ('a \<Rightarrow> py_error + 'b) \<Rightarrow> py_error + 'b" where
  "ebind m f = (case m of Inl e \<Rightarrow> Inl e | Inr x \<Rightarrow> f x)"

text \<open>\<open>hex(n)\<close> of a Python int: lower-case digits, the sign before the \<open>0x\<close>.\<close>

fun hex_nat :: "nat \<Rightarrow> string" where
  "hex_nat n =
     (if n < 16 then [''0123456789abcdef'' ! n]
      else hex_nat (n div 16) @ [''0123456789abcdef'' ! (n mod 16)])"

declare hex_nat.simps [simp del]

definition hex :: "int \<Rightarrow> string" where
  "hex n = (if n < 0 then ''-0x'' @ hex_nat (nat (- n)) else ''0x'' @ hex_nat (nat n))"

text \<open>
  The text an f-string interpolates for a list of strings: the \<open>repr\<close> of each item
  (single quotes; the items here are \<open>hex\<close> outputs, which need no escaping),
  separated by a comma and a space, in square brackets.
\<close>

fun py_join :: "string \<Rightarrow> string list \<Rightarrow> string" where
  "py_join sep [] = []"
| "py_join sep [s] = s"
| "py_join sep (s # t # ss) = s @ sep @ py_join sep (t # ss)"

definition py_repr_str_list :: "string list \<Rightarrow> string" where
  "py_repr_str_list ss = ''['' @ py_join '', '' (map (\<lambda>s. [CHR 0x27] @ s @ [CHR 0x27]) ss) @ '']''"

text \<open>
  A \<open>Dict[str, bool]\<close> of check results, in insertion order. \<open>len(d)\<close> is the
  length, \<open>sum(d.values())\<close> counts the entries that are \<open>True\<close>.
\<close>

type_synonym check_dict = "(string \<times> bool) list"

definition py_sum_bools :: "check_dict \<Rightarrow> nat" where
  "py_sum_bools d = length (filter snd d)"

section \<open>The enumerations\<close>

datatype MessageType =
  INIT | ACK | DISCOVER | SUB_PROTOCOL | CALL | RESPONSE | CLOSE | FEEDBACK
  | PING | PONG | CONTROL | ADVERTISE | OBSERVE | TELEMETRY

datatype QoSClass = REALTIME | INTERACTIVE | BATCH

datatype TransportHint = QUIC | QUDAG | DUAL

text \<open>\<open>list(MessageType)\<close>: the members in definition order.\<close>

definition list_MessageType :: "MessageType list" where
  "list_MessageType =
     [INIT, ACK, DISCOVER, SUB_PROTOCOL, CALL, RESPONSE, CLOSE, FEEDBACK,
      PING, PONG, CONTROL, ADVERTISE, OBSERVE, TELEMETRY]"

section \<open>ProtocolIntegrityAnalyzer\<close>

text \<open>
  The analyzer's only state that the checks touch is \<open>self.issues\<close>, a list of
  strings that the checks append to; every method takes the list and returns it
  with what it appended. \<open>__init__\<close> sets it to the empty list. The \<open>print\<close>
  calls are console output and are left out.
\<close>

definition expected_opcodes :: "(MessageType \<times> int) list" where
  "expected_opcodes =
     [(INIT, 0x01), (ACK, 0x02), (DISCOVER, 0x03), (SUB_PROTOCOL, 0x04), (CALL, 0x05),
      (RESPONSE, 0x06), (CLOSE, 0x07), (FEEDBACK, 0x08), (PING, 0x09), (PONG, 0x0A),
      (CONTROL, 0x0B), (ADVERTISE, 0x0C), (OBSERVE, 0x0D), (TELEMETRY, 0x0E)]"

text \<open>
  The loop \<open>for opcode in opcodes\<close> of the range check: one issue for every opcode
  outside \<open>0x01..0x0E\<close>, in the order of the list.
\<close>

fun range_validity_loop :: "int list \<Rightarrow> check_dict \<times> string list \<Rightarrow> check_dict \<times> string list" where
  "range_validity_loop [] s = s"
| "range_validity_loop (opcode # rest) (consistency_check, issues) =
     range_validity_loop rest
       (if \<not> (0x01 \<le> opcode \<and> opcode \<le> 0x0E)
        then (AList.update ''range_validity'' False consistency_check,
              issues @ [''Opcode '' @ hex opcode @ '' outside valid range''])
        else (consistency_check, issues))"

text \<open>
  The body of \<open>analyze_message_consistency\<close> from \<open>consistency_check = ...\<close> on, as
  a function of \<open>opcodes = list(expected_opcodes.values())\<close>. \<open>len(set(opcodes))\<close> is
  the length without duplicates. \<open>missing\<close> is a Python set; its members are listed
  here in ascending order (the language leaves the iteration order of a set open).
\<close>

definition check_opcodes :: "int list \<Rightarrow> string list \<Rightarrow> check_dict \<times> string list" where
  "check_opcodes opcodes issues =
     (let consistency_check =
            [(''opcode_uniqueness'', True), (''range_validity'', True), (''completeness'', True)];
          (consistency_check, issues) =
            (if length opcodes \<noteq> length (remdups opcodes)
             then (AList.update ''opcode_uniqueness'' False consistency_check,
                   issues @ [''Duplicate opcodes found in message type definitions''])
             else (consistency_check, issues));
          (consistency_check, issues) = range_validity_loop opcodes (consistency_check, issues);
          expected_range = [0x01 ..< 0x0F];
          missing = filter (\<lambda>x. x \<notin> set opcodes) (map int expected_range)
      in if set opcodes \<noteq> set (map int expected_range) \<and> missing \<noteq> []
         then (AList.update ''completeness'' False consistency_check,
               issues @ [''Missing opcodes: '' @ py_repr_str_list (map hex missing)])
         else (consistency_check, issues))"

definition analyze_message_consistency :: "string list \<Rightarrow> check_dict \<times> string list" where
  "analyze_message_consistency issues = check_opcodes (map snd expected_opcodes) issues"

text \<open>
  \<open>analyze_header_field_consistency\<close>: the dictionary \<open>required_headers\<close> is built and
  never read; the loop tests \<open>header.startswith("X-IICP-")\<close> on the nine names.
\<close>

definition iicp_headers :: "string list" where
  "iicp_headers =
     [''X-IICP-TTL'', ''X-IICP-Hash'', ''X-IICP-Lock'', ''X-IICP-Transport-Hint'',
      ''X-IICP-Trace-Hash'', ''X-IICP-Auth-Method'', ''X-IICP-Retry-Policy'',
      ''X-IICP-Routing-Hint'', ''X-IICP-Scheduling-Hint'']"

fun naming_convention_loop :: "string list \<Rightarrow> check_dict \<times> string list \<Rightarrow> check_dict \<times> string list" where
  "naming_convention_loop [] s = s"
| "naming_convention_loop (header # rest) (header_consistency, issues) =
     naming_convention_loop rest
       (if \<not> prefix ''X-IICP-'' header
        then (AList.update ''naming_convention'' False header_consistency,
              issues @ [''Header '' @ header @ '' doesn't follow X-IICP- convention''])
        else (header_consistency, issues))"

definition analyze_header_field_consistency :: "string list \<Rightarrow> check_dict \<times> string list" where
  "analyze_header_field_consistency issues =
     naming_convention_loop iicp_headers
       ([(''naming_convention'', True), (''type_consistency'', True), (''required_coverage'', True)],
        issues)"

definition analyze_version_compatibility :: "string list \<Rightarrow> check_dict \<times> string list" where
  "analyze_version_compatibility issues =
     (let version_check =
            [(''range_validity'', True), (''backward_compatibility'', True),
             (''forward_compatibility'', True)];
          min_version = (0x09 :: int);
          max_version = (0x0E :: int);
          current_version = (0x0E :: int);
          (version_check, issues) =
            (if min_version \<ge> max_version
             then (AList.update ''range_validity'' False version_check,
                   issues @ [''Invalid version range: min >= max''])
             else (version_check, issues))
      in if current_version < min_version \<or> current_version > max_version
         then (AList.update ''range_validity'' False version_check,
               issues @ [''Current version outside supported range''])
         else (version_check, issues))"

text \<open>
  \<open>calculate_integrity_score\<close> returns the score and leaves \<open>self.issues\<close> as the
  three checks extended it. The three dictionaries have three keys each, so the
  true division \<open>passed_checks / total_checks\<close> never divides by zero.
\<close>

definition calculate_integrity_score :: "string list \<Rightarrow> real \<times> string list" where
  "calculate_integrity_score issues =
     (let (message_consistency, issues) = analyze_message_consistency issues;
          (header_consistency, issues) = analyze_header_field_consistency issues;
          (version_compatibility, issues) = analyze_version_compatibility issues;
          total_checks =
            length message_consistency + length header_consistency + length version_compatibility;
          passed_checks =
            py_sum_bools message_consistency + py_sum_bools header_consistency
            + py_sum_bools version_compatibility;
          integrity_score = (real passed_checks / real total_checks) * 100
      in (integrity_score, issues))"

section \<open>The random sources\<close>

text \<open>
  The script draws from two process-wide generators: Python's \<open>random\<close> module and
  \<open>numpy.random\<close>. A generator's state is modelled by what it has yet to hand
  out: a tape of numbers and the position of the next one. A seed fixes the tape.
  Each call of a primitive consumes one number. \<open>random.random()\<close> returns the
  number \<open>u\<close> itself (in \<open>[0, 1)\<close> for a real generator, see \<open>valid_rng\<close>);
  \<open>random.uniform(a, b)\<close> is \<open>a + (b - a) * random()\<close>; \<open>random.choice(seq)\<close>
  raises IndexError on an empty sequence and otherwise returns the item at
  index \<open>floor(u * len(seq))\<close>, which for \<open>u\<close> in \<open>[0, 1)\<close> is any valid index.
  \<open>numpy.random.normal(loc, scale)\<close> raises ValueError for a negative scale and
  otherwise returns \<open>loc + scale * z\<close> for the next standard normal draw \<open>z\<close>.
\<close>

record rng =
  py_tape :: "nat \<Rightarrow> real"
  py_pos :: nat
  np_tape :: "nat \<Rightarrow> real"
  np_pos :: nat

definition valid_rng :: "rng \<Rightarrow> bool" where
  "valid_rng g = (\<forall>i. 0 \<le> py_tape g i \<and> py_tape g i < 1)"

definition random_random :: "rng \<Rightarrow> real \<times> rng" where
  "random_random g = (py_tape g (py_pos g), g\<lparr>py_pos := py_pos g + 1\<rparr>)"

definition random_uniform :: "real \<Rightarrow> real \<Rightarrow> rng \<Rightarrow> real \<times> rng" where
  "random_uniform a b g = (let (u, g) = random_random g in (a + (b - a) * u, g))"

definition random_choice :: "'a list \<Rightarrow> rng \<Rightarrow> py_error + ('a \<times> rng)" where
  "random_choice seq g =
     (if seq = [] then Inl IndexError
      else let (u, g) = random_random g
           in Inr (seq ! nat \<lfloor>u * real (length seq)\<rfloor>, g))"

definition np_random_normal :: "real \<Rightarrow> real \<Rightarrow> rng \<Rightarrow> py_error + (real \<times> rng)" where
  "np_random_normal loc scale g =
     (if scale < 0 then Inl ValueError
      else Inr (loc + scale * np_tape g (np_pos g), g\<lparr>np_pos := np_pos g + 1\<rparr>))"

text \<open>
  \<open>numpy.random.normal(loc, scale, (rows, cols))\<close>: a matrix filled row by row from
  consecutive draws.
\<close>

definition np_random_normal_array ::
    "real \<Rightarrow> real \<Rightarrow> nat \<Rightarrow> nat \<Rightarrow> rng \<Rightarrow> py_error + (real list list \<times> rng)" where
  "np_random_normal_array loc scale rows cols g =
     (if scale < 0 then Inl ValueError
      else Inr (map (\<lambda>i. map (\<lambda>j. loc + scale * np_tape g (np_pos g + i * cols + j)) [0 ..< cols])
                  [0 ..< rows],
                g\<lparr>np_pos := np_pos g + rows * cols\<rparr>))"

section \<open>The data model of the simulator\<close>

record Agent =
  agent_id :: string
  region :: string
  supported_intents :: "string list"
  performance_class :: QoSClass
  transport_pref :: TransportHint
  load_factor :: real
  last_heartbeat :: real

text \<open>
  A router is a Python dict with the keys \<open>router_id\<close>, \<open>region\<close>, \<open>queue_depth\<close>,
  \<open>processed_messages\<close>, \<open>error_count\<close> and \<open>cpu_utilization\<close>; the fields carry
  the prefix \<open>router_\<close> where the key is also a field of another record.
\<close>

record Router =
  router_id :: string
  router_region :: string
  queue_depth :: int
  processed_messages :: int
  router_error_count :: int
  router_cpu_utilization :: real

record PerformanceMetrics =
  latency_ms :: real
  success_rate :: real
  throughput_msg_per_sec :: real
  error_count :: int
  cpu_utilization :: real
  memory_usage_mb :: real

text \<open>\<open>self.nn_weights\<close>: a matrix is the list of its rows.\<close>

record nn_weights =
  latency_prediction :: "real list list"
  load_balancing :: "real list list"
  failure_prediction :: "real list list"

record IICPNeuralNetworkSimulator =
  num_agents :: nat
  num_routers :: nat
  regions :: "string list"
  agents :: "Agent list"
  routers :: "Router list"
  metrics_history :: "PerformanceMetrics list"
  simulation_time :: real
  nn_weights :: nn_weights

text \<open>The three matrices that \<open>__init__\<close> draws, in the order of the dict literal.\<close>

definition init_nn_weights :: "rng \<Rightarrow> py_error + (nn_weights \<times> rng)" where
  "init_nn_weights g =
     ebind (np_random_normal_array 0 0.1 10 5 g) (\<lambda>(w1, g).
     ebind (np_random_normal_array 0 0.1 8 4 g) (\<lambda>(w2, g).
     ebind (np_random_normal_array 0 0.1 6 3 g) (\<lambda>(w3, g).
       Inr (\<lparr>latency_prediction = w1, load_balancing = w2, failure_prediction = w3\<rparr>, g))))"

definition has_shape :: "real list list \<Rightarrow> nat \<Rightarrow> nat \<Rightarrow> bool" where
  "has_shape W rows cols = (length W = rows \<and> list_all (\<lambda>row. length row = cols) W)"

definition weights_ok :: "IICPNeuralNetworkSimulator \<Rightarrow> bool" where
  "weights_ok sim =
     (has_shape (latency_prediction (nn_weights sim)) 10 5
      \<and> has_shape (failure_prediction (nn_weights sim)) 6 3)"

section \<open>The scoring function\<close>

text \<open>
  \<open>np.dot\<close> of a vector and a matrix: entry \<open>j\<close> is the sum over \<open>i\<close> of
  \<open>x[i] * W[i][j]\<close>; numpy raises ValueError when the length of the vector is not
  the number of rows. \<open>np.mean\<close> of an empty array is nan (\<open>None\<close> here), and
  \<open>max(0.001, nan)\<close> is \<open>0.001\<close>, since Python's \<open>max\<close> keeps its first argument
  unless a later one compares greater.
\<close>

definition ncols :: "real list list \<Rightarrow> nat" where
  "ncols W = (case W of [] \<Rightarrow> 0 | row # _ \<Rightarrow> length row)"

definition np_dot :: "real list \<Rightarrow> real list list \<Rightarrow> py_error + real list" where
  "np_dot x W =
     (if length x = length W \<and> has_shape W (length W) (ncols W)
      then Inr (map (\<lambda>j. sum_list (map2 (\<lambda>xi row. xi * row ! j) x W)) [0 ..< ncols W])
      else Inl ValueError)"

definition relu :: "real list \<Rightarrow> real list" where
  "relu x = map (max 0) x"

definition np_mean :: "real list \<Rightarrow> real option" where
  "np_mean xs = (if xs = [] then None else Some (sum_list xs / real (length xs)))"

definition neural_network_predict :: "real list \<Rightarrow> real list list \<Rightarrow> py_error + real" where
  "neural_network_predict input_vector weights =
     ebind (np_dot input_vector weights) (\<lambda>d.
       let hidden = relu d
       in Inr (case np_mean hidden of None \<Rightarrow> 0.001 | Some output \<Rightarrow> max 0.001 output))"

section \<open>Simulating one message\<close>

text \<open>
  The two dictionaries of \<open>_calculate_message_latency\<close> are indexed by
  \<open>qos_class.value\<close>; each has a key for every member of \<open>QoSClass\<close>.
\<close>

fun qos_priority :: "QoSClass \<Rightarrow> real" where
  "qos_priority REALTIME = 1.0"
| "qos_priority INTERACTIVE = 0.6"
| "qos_priority BATCH = 0.3"

fun base_latency_table :: "QoSClass \<Rightarrow> real" where
  "base_latency_table REALTIME = 50"
| "base_latency_table INTERACTIVE = 150"
| "base_latency_table BATCH = 500"

text \<open>
  The feature vector of \<open>_calculate_message_latency\<close>: \<open>network_load\<close> is drawn
  first, then the four draws inside the array literal, left to right.
\<close>

definition latency_features ::
    "IICPNeuralNetworkSimulator \<Rightarrow> string \<Rightarrow> string \<Rightarrow> real \<Rightarrow> QoSClass \<Rightarrow> rng \<Rightarrow> real list \<times> rng" where
  "latency_features sim source_region dest_region message_size_kb qos_class g =
     (let cross_region = (if source_region \<noteq> dest_region then 1.0 else 0.0);
          (network_load, g) = random_uniform 0.3 0.9 g;
          (congestion, g) = random_uniform 0.1 0.9 g;
          (efficiency, g) = random_uniform 0.8 1.0 g;
          (error_rate, g) = random_uniform 0.0 0.3 g;
          (network_factor, g) = random_uniform 0.5 1.0 g
      in ([cross_region,
           qos_priority qos_class,
           network_load,
           min (message_size_kb / 100.0) 1.0,
           congestion,
           efficiency,
           error_rate,
           simulation_time sim / 1000.0,
           real (length (agents sim)) / 25000.0,
           network_factor], g))"

text \<open>
  The rest of \<open>_calculate_message_latency\<close>. Its test \<open>if cross_region:\<close> reads
  the float that is 1.0 exactly when the two regions differ.
\<close>

definition calculate_message_latency ::
    "IICPNeuralNetworkSimulator \<Rightarrow> string \<Rightarrow> string \<Rightarrow> real \<Rightarrow> QoSClass \<Rightarrow> rng
       \<Rightarrow> py_error + (real \<times> rng)" where
  "calculate_message_latency sim source_region dest_region message_size_kb qos_class g =
     (let (input_features, g) =
            latency_features sim source_region dest_region message_size_kb qos_class g
      in ebind (neural_network_predict input_features (latency_prediction (nn_weights sim)))
           (\<lambda>predicted_latency.
             let base_latency = base_latency_table qos_class;
                 (base_latency, g) =
                   (if source_region \<noteq> dest_region
                    then let (factor, g) = random_uniform 2.0 4.0 g in (base_latency * factor, g)
                    else (base_latency, g));
                 final_latency = base_latency * (0.5 + predicted_latency * 2.0)
             in ebind (np_random_normal 0 (final_latency * 0.1) g) (\<lambda>(noise, g).
                  Inr (max 10.0 (final_latency + noise), g))))"

text \<open>
  The first two statements of \<open>_simulate_message_processing\<close>: the source is chosen
  among all agents, the destination among the agents that differ from it
  (dataclass equality: all fields equal).
\<close>

definition select_endpoints :: "Agent list \<Rightarrow> rng \<Rightarrow> py_error + (Agent \<times> Agent \<times> rng)" where
  "select_endpoints population g =
     ebind (random_choice population g) (\<lambda>(source_agent, g).
     ebind (random_choice (filter (\<lambda>a. a \<noteq> source_agent) population) g) (\<lambda>(dest_agent, g).
       Inr (source_agent, dest_agent, g)))"

text \<open>
  \<open>_simulate_message_processing\<close> is a method of the simulator: it takes the
  simulator and the generator and returns both with the result. It assigns to
  no attribute of \<open>self\<close>.
\<close>

definition simulate_message_processing ::
    "IICPNeuralNetworkSimulator \<Rightarrow> MessageType \<Rightarrow> real \<Rightarrow> rng
       \<Rightarrow> py_error + (real \<times> bool \<times> IICPNeuralNetworkSimulator \<times> rng)" where
  "simulate_message_processing sim message_type payload_size_kb g =
     ebind (select_endpoints (agents sim) g) (\<lambda>(source_agent, dest_agent, g).
     ebind (calculate_message_latency sim (region source_agent) (region dest_agent)
              payload_size_kb (performance_class source_agent) g) (\<lambda>(latency, g).
       let (network_error_rate, g) = random_uniform 0.0 0.1 g;
           failure_features =
             [latency / 1000.0,
              payload_size_kb / 100.0,
              load_factor source_agent,
              load_factor dest_agent,
              network_error_rate,
              real (length (agents sim)) / 25000.0]
       in ebind (neural_network_predict failure_features (failure_prediction (nn_weights sim)))
            (\<lambda>failure_probability.
              let (r, g) = random_random g;
                  success = (r > failure_probability * 0.01)
              in Inr (latency, success, sim, g))))"

section \<open>The two scenarios\<close>

text \<open>
  \<open>np.percentile(a, q)\<close> (numpy's default, linear interpolation between the two
  nearest ranks of the sorted sample) and \<open>np.median(a)\<close>. Both callers pass a
  non-empty sample: the large-scale run has raised ZeroDivisionError before it
  gets there when no message was simulated, and the build run always has its
  1000 samples.
\<close>

definition np_percentile :: "real list \<Rightarrow> real \<Rightarrow> real" where
  "np_percentile a q =
     (let s = sort a;
          n = length s;
          h = (real n - 1) * q / 100;
          j = nat \<lfloor>h\<rfloor>
      in if j + 1 < n then s ! j + (h - real j) * (s ! (j + 1) - s ! j) else s ! (n - 1))"

definition np_median :: "real list \<Rightarrow> real" where
  "np_median a =
     (let s = sort a;
          n = length s
      in if even n then (s ! (n div 2 - 1) + s ! (n div 2)) / 2 else s ! (n div 2))"

text \<open>The local counters of \<open>run_large_scale_simulation\<close>.\<close>

record large_scale_counters =
  total_messages :: nat
  total_latency :: real
  successful_messages :: nat
  failed_messages :: nat
  latencies :: "real list"

text \<open>
  The inner loop \<open>for _ in range(messages_per_second)\<close>, by the number of
  iterations that remain. \<open>failed_messages\<close> is the local \<open>error_count\<close>.
\<close>

fun message_loop ::
    "nat \<Rightarrow> IICPNeuralNetworkSimulator \<Rightarrow> large_scale_counters \<Rightarrow> rng
       \<Rightarrow> py_error + (large_scale_counters \<times> IICPNeuralNetworkSimulator \<times> rng)" where
  "message_loop 0 sim c g = Inr (c, sim, g)"
| "message_loop (Suc n) sim c g =
     ebind (random_choice list_MessageType g) (\<lambda>(message_type, g).
       let (payload_size, g) = random_uniform 1 500 g
       in ebind (simulate_message_processing sim message_type payload_size g)
            (\<lambda>(latency, success, sim, g).
              message_loop n sim
                (c\<lparr>total_messages := total_messages c + 1,
                   total_latency := total_latency c + latency,
                   latencies := latencies c @ [latency],
                   successful_messages :=
                     (if success then successful_messages c + 1 else successful_messages c),
                   failed_messages :=
                     (if success then failed_messages c else failed_messages c + 1)\<rparr>)
                g))"

text \<open>
  The outer loop \<open>for second in range(duration_seconds)\<close>, over the seconds that
  remain; it assigns \<open>self.simulation_time\<close>. The progress line is console output.
\<close>

fun second_loop ::
    "nat \<Rightarrow> nat list \<Rightarrow> IICPNeuralNetworkSimulator \<Rightarrow> large_scale_counters \<Rightarrow> rng
       \<Rightarrow> py_error + (large_scale_counters \<times> IICPNeuralNetworkSimulator \<times> rng)" where
  "second_loop messages_per_second [] sim c g = Inr (c, sim, g)"
| "second_loop messages_per_second (second # rest) sim c g =
     ebind (message_loop messages_per_second (sim\<lparr>simulation_time := real second\<rparr>) c g)
       (\<lambda>(c, sim, g). second_loop messages_per_second rest sim c g)"

text \<open>
  The loops of \<open>run_large_scale_simulation\<close> from fresh counters. \<open>900000 //
  duration_seconds\<close> is Python's floor division, which raises on a zero divisor;
  \<open>range\<close> of a number that is not positive is empty.
\<close>

definition large_scale_loops ::
    "IICPNeuralNetworkSimulator \<Rightarrow> int \<Rightarrow> rng
       \<Rightarrow> py_error + (large_scale_counters \<times> IICPNeuralNetworkSimulator \<times> rng)" where
  "large_scale_loops sim duration_seconds g =
     (if duration_seconds = 0 then Inl ZeroDivisionError
      else let messages_per_second = 900000 div duration_seconds
           in second_loop (nat messages_per_second) [0 ..< nat duration_seconds] sim
                \<lparr>total_messages = 0, total_latency = 0, successful_messages = 0,
                 failed_messages = 0, latencies = []\<rparr> g)"

text \<open>
  \<open>run_large_scale_simulation\<close>. \<open>elapsed\<close> is the wall-clock difference
  \<open>time.time() - start_time\<close>, an input from outside the program. The divisions
  are Python's true division and raise on a zero divisor.
\<close>

definition run_large_scale_simulation ::
    "IICPNeuralNetworkSimulator \<Rightarrow> int \<Rightarrow> real \<Rightarrow> rng
       \<Rightarrow> py_error + (PerformanceMetrics \<times> IICPNeuralNetworkSimulator \<times> rng)" where
  "run_large_scale_simulation sim duration_seconds elapsed g =
     ebind (large_scale_loops sim duration_seconds g) (\<lambda>(c, sim, g).
       if total_messages c = 0 then Inl ZeroDivisionError
       else let success_rate = (real (successful_messages c) / real (total_messages c)) * 100;
                avg_latency = total_latency c / real (total_messages c);
                p95_latency = np_percentile (latencies c) 95
            in if elapsed = 0 then Inl ZeroDivisionError
               else let throughput = real (total_messages c) / elapsed;
                        (cpu, g) = random_uniform 65 85 g
                    in Inr (\<lparr>latency_ms = p95_latency,
                              success_rate = success_rate,
                              throughput_msg_per_sec = throughput,
                              error_count = int (failed_messages c),
                              cpu_utilization = cpu,
                              memory_usage_mb = 45.0\<rparr>, sim, g))"

text \<open>
  One iteration of the loop of \<open>run_build_system_simulation\<close>, up to
  \<open>build_success\<close>: the payload size of a stage is drawn before the stage is
  simulated.
\<close>

definition build_trial ::
    "IICPNeuralNetworkSimulator \<Rightarrow> rng
       \<Rightarrow> py_error + (real \<times> bool \<times> IICPNeuralNetworkSimulator \<times> rng)" where
  "build_trial sim g =
     (let (rust_payload, g) = random_uniform 50 200 g
      in ebind (simulate_message_processing sim CALL rust_payload g)
           (\<lambda>(rust_latency, rust_success, sim, g).
             let (python_payload, g) = random_uniform 30 150 g
             in ebind (simulate_message_processing sim CALL python_payload g)
                  (\<lambda>(python_latency, python_success, sim, g).
                    let total_build_time = rust_latency + python_latency;
                        build_success = (rust_success \<and> python_success)
                    in Inr (total_build_time, build_success, sim, g))))"

record build_counters =
  total_builds :: nat
  successful_builds :: nat
  build_latencies :: "real list"

fun build_loop ::
    "nat \<Rightarrow> IICPNeuralNetworkSimulator \<Rightarrow> build_counters \<Rightarrow> rng
       \<Rightarrow> py_error + (build_counters \<times> IICPNeuralNetworkSimulator \<times> rng)" where
  "build_loop 0 sim c g = Inr (c, sim, g)"
| "build_loop (Suc n) sim c g =
     ebind (build_trial sim g) (\<lambda>(total_build_time, build_success, sim, g).
       build_loop n sim
         (c\<lparr>total_builds := total_builds c + 1,
            build_latencies := build_latencies c @ [total_build_time],
            successful_builds :=
              (if build_success then successful_builds c + 1 else successful_builds c)\<rparr>)
         g)"

text \<open>
  \<open>run_build_system_simulation\<close>. The list \<open>build_agents\<close> and \<open>p95_latency\<close> are
  computed and never read; neither computation can raise or draw a number.
  \<open>total_builds - successful_builds\<close> is a difference of Python ints.
\<close>

definition run_build_system_simulation ::
    "IICPNeuralNetworkSimulator \<Rightarrow> rng
       \<Rightarrow> py_error + (PerformanceMetrics \<times> IICPNeuralNetworkSimulator \<times> rng)" where
  "run_build_system_simulation sim g =
     ebind (build_loop 1000 sim \<lparr>total_builds = 0, successful_builds = 0, build_latencies = []\<rparr> g)
       (\<lambda>(c, sim, g).
         if total_builds c = 0 then Inl ZeroDivisionError
         else let success_rate = (real (successful_builds c) / real (total_builds c)) * 100;
                  median_latency = np_median (build_latencies c);
                  (cpu, g) = random_uniform 70 85 g
              in Inr (\<lparr>latency_ms = median_latency,
                        success_rate = success_rate,
                        throughput_msg_per_sec = real (total_builds c) / 300,
                        error_count = int (total_builds c) - int (successful_builds c),
                        cpu_utilization = cpu,
                        memory_usage_mb = 45.0\<rparr>, sim, g))"

text \<open>
  The stage calls of \<open>n\<close> consecutive trials, as the loop of
  \<open>run_build_system_simulation\<close> makes them: for each trial the payload draw and the
  call for the first stage, then the payload draw and the call for the second
  stage, on the generator as the calls before left it. The result lists what each
  pair of calls returned, \<open>(rust_latency, rust_success, python_latency,
  python_success)\<close>, trial by trial; nothing is added up or combined.
\<close>

fun stage_results ::
    "nat \<Rightarrow> IICPNeuralNetworkSimulator \<Rightarrow> rng
       \<Rightarrow> py_error + ((real \<times> bool \<times> real \<times> bool) list \<times> rng)" where
  "stage_results 0 sim g = Inr ([], g)"
| "stage_results (Suc n) sim g =
     (let (rust_payload, g) = random_uniform 50 200 g
      in ebind (simulate_message_processing sim CALL rust_payload g)
           (\<lambda>(rust_latency, rust_success, sim, g).
             let (python_payload, g) = random_uniform 30 150 g
             in ebind (simulate_message_processing sim CALL python_payload g)
                  (\<lambda>(python_latency, python_success, sim, g).
                    ebind (stage_results n sim g) (\<lambda>(rest, g).
                      Inr ((rust_latency, rust_success, python_latency, python_success) # rest,
                           g)))))"

section \<open>A small population for concrete runs\<close>

text \<open>
  Two agents in two regions, one router, weight matrices of the shapes that
  \<open>__init__\<close> draws (all entries zero), and generators whose every draw is zero.
\<close>

definition example_agents :: "Agent list" where
  "example_agents =
     [\<lparr>agent_id = ''llm://agent-eu-west-1-0000'', region = ''eu-west-1'',
       supported_intents = [''urn:iicp:intent:build:rust:v2.1''],
       performance_class = INTERACTIVE, transport_pref = QUIC,
       load_factor = 0.5, last_heartbeat = 0\<rparr>,
      \<lparr>agent_id = ''llm://agent-us-east-1-0001'', region = ''us-east-1'',
       supported_intents = [''urn:iicp:intent:doc:summarize:v1.0''],
       performance_class = BATCH, transport_pref = DUAL,
       load_factor = 0.25, last_heartbeat = 0\<rparr>]"

definition example_rng :: rng where
  "example_rng = \<lparr>py_tape = (\<lambda>i. 0), py_pos = 0, np_tape = (\<lambda>i. 0), np_pos = 0\<rparr>"

text \<open>
  A generator whose first eleven draws are one half and whose later draws are
  zero: in a build trial started on it the first stage succeeds and the second
  fails.
\<close>

definition example_rng_mixed :: rng where
  "example_rng_mixed =
     \<lparr>py_tape = (\<lambda>i. if i < 11 then 1 / 2 else 0), py_pos = 0,
      np_tape = (\<lambda>i. 0), np_pos = 0\<rparr>"

definition example_simulator :: IICPNeuralNetworkSimulator where
  "example_simulator =
     \<lparr>num_agents = 2, num_routers = 1, regions = [''eu-west-1'', ''us-east-1''],
      agents = example_agents,
      routers = [\<lparr>router_id = ''router-000'', router_region = ''eu-west-1'', queue_depth = 0,
                  processed_messages = 0, router_error_count = 0,
                  router_cpu_utilization = 0.5\<rparr>],
      metrics_history = [], simulation_time = 0,
      nn_weights = \<lparr>latency_prediction = replicate 10 (replicate 5 0),
                    load_balancing = replicate 8 (replicate 4 0),
                    failure_prediction = replicate 6 (replicate 3 0)\<rparr>\<rparr>"

section \<open>Properties of the integrity analyzer\<close>

lemma py_sum_bools_simps [simp]:
  "py_sum_bools [] = 0"
  "py_sum_bools ((k, b) # d) = (if b then 1 else 0) + py_sum_bools d"
  by (simp_all add: py_sum_bools_def)








text \<open>
  C1. On the hardcoded opcode, header and version tables, a fresh analyzer
  (empty issue list) gets the integrity score 100 exactly, and the issue list is
  still empty after the call.
\<close>

theorem calculate_integrity_score_fresh:
  "calculate_integrity_score [] = (100, [])"
  by (simp add: calculate_integrity_score_def analyze_message_consistency_def
        check_opcodes_def expected_opcodes_def analyze_header_field_consistency_def
        iicp_headers_def analyze_version_compatibility_def Let_def upt_rec)




section \<open>Properties of the simulator\<close>

subsection \<open>The scoring function and one message\<close>

lemma ebind_simps [simp]:
  "ebind (Inl e) f = Inl e"
  "ebind (Inr x) f = f x"
  by (simp_all add: ebind_def)

lemma ebind_eq_Inr:
  "ebind m f = Inr y \<longleftrightarrow> (\<exists>x. m = Inr x \<and> f x = Inr y)"
  by (cases m) simp_all

lemma sum_list_map2_nth:
  "length xs = length ys \<Longrightarrow>
   sum_list (map2 g xs ys) = (\<Sum>i<length xs. (g (xs ! i) (ys ! i) :: real))"
proof (induction xs ys rule: list_induct2)
  case Nil
  then show ?case by simp
next
  case (Cons x xs y ys)
  then show ?case by (simp del: sum.lessThan_Suc add: sum.lessThan_Suc_shift)
qed

lemma sum_list_map_upt: "sum_list (map f [0 ..< m]) = (\<Sum>j<m. (f j :: real))"
  by (simp add: interv_sum_list_conv_sum_set_nat lessThan_atLeast0)

lemma has_shape_ncols:
  "has_shape W n m \<Longrightarrow> W \<noteq> [] \<Longrightarrow> ncols W = m"
  by (cases W) (simp_all add: has_shape_def ncols_def)

lemma np_dot_shaped:
  assumes "has_shape W (length x) m" and "W \<noteq> []"
  shows "np_dot x W = Inr (map (\<lambda>j. \<Sum>i<length x. x ! i * W ! i ! j) [0 ..< m])"
proof -
  from assms have nc: "ncols W = m" by (rule has_shape_ncols)
  from assms(1) have len: "length x = length W" by (simp add: has_shape_def)
  from assms(1) have "has_shape W (length W) (ncols W)" by (simp add: nc len)
  then show ?thesis
    by (simp add: np_dot_def len nc sum_list_map2_nth [OF len, unfolded len])
qed

lemma predict_lower_bound:
  "neural_network_predict x W = Inr y \<Longrightarrow> 0.001 \<le> y"
  by (auto simp: neural_network_predict_def ebind_eq_Inr Let_def split: option.splits)

lemma predict_formula:
  assumes "has_shape W (length x) m" and "0 < m"
  shows "neural_network_predict x W =
           Inr (max 0.001 ((\<Sum>j<m. max 0 (\<Sum>i<length x. x ! i * W ! i ! j)) / real m))"
proof (cases "W = []")
  case True
  with assms(1) have x: "x = []" by (simp add: has_shape_def)
  have "np_dot [] [] = Inr []" by (simp add: np_dot_def has_shape_def ncols_def)
  then show ?thesis using True x assms(2)
    by (simp add: neural_network_predict_def relu_def np_mean_def)
next
  case False
  note d = np_dot_shaped [OF assms(1) False]
  have ne: "[0 ..< m] \<noteq> []" using assms(2) by simp
  have "sum_list (map (max 0) (map (\<lambda>j. \<Sum>i<length x. x ! i * W ! i ! j) [0 ..< m]))
        = (\<Sum>j<m. max 0 (\<Sum>i<length x. x ! i * W ! i ! j))"
    by (simp only: map_map o_def sum_list_map_upt)
  then show ?thesis using ne
    by (simp add: neural_network_predict_def d relu_def np_mean_def)
qed

lemma predict_no_columns:
  assumes "has_shape W (length x) 0"
  shows "neural_network_predict x W = Inr 0.001"
proof (cases "W = []")
  case True
  with assms have x: "x = []" by (simp add: has_shape_def)
  have "np_dot [] [] = Inr []" by (simp add: np_dot_def has_shape_def ncols_def)
  then show ?thesis using True x
    by (simp add: neural_network_predict_def relu_def np_mean_def)
next
  case False
  from np_dot_shaped [OF assms False] show ?thesis
    by (simp add: neural_network_predict_def relu_def np_mean_def)
qed

lemma latency_floor_calc:
  "calculate_message_latency sim sr dr sz q g = Inr (lat, g') \<Longrightarrow> 10 \<le> lat"
  by (auto simp: calculate_message_latency_def ebind_eq_Inr Let_def split_beta)

lemma simulate_unfold:
  "simulate_message_processing sim mt p g = Inr (lat, ok, sim', g') \<Longrightarrow>
   sim' = sim \<and> (\<exists>src dst g1 g2. select_endpoints (agents sim) g = Inr (src, dst, g1)
      \<and> calculate_message_latency sim (region src) (region dst) p (performance_class src) g1 = Inr (lat, g2))"
  by (auto simp: simulate_message_processing_def ebind_eq_Inr Let_def split_beta)

subsection \<open>The generator\<close>

lemma random_random_tape [simp]:
  "py_tape (snd (random_random g)) = py_tape g"
  "np_tape (snd (random_random g)) = np_tape g"
  "np_pos (snd (random_random g)) = np_pos g"
  by (simp_all add: random_random_def)

lemma random_uniform_tape [simp]:
  "py_tape (snd (random_uniform a b g)) = py_tape g"
  "np_tape (snd (random_uniform a b g)) = np_tape g"
  "np_pos (snd (random_uniform a b g)) = np_pos g"
  by (simp_all add: random_uniform_def split_beta)

lemma valid_rng_tape: "py_tape g' = py_tape g \<Longrightarrow> valid_rng g \<Longrightarrow> valid_rng g'"
  by (simp add: valid_rng_def)

lemma random_uniform_range:
  assumes "valid_rng g" and "a \<le> b"
  shows "a \<le> fst (random_uniform a b g) \<and> fst (random_uniform a b g) \<le> b"
proof -
  let ?u = "py_tape g (py_pos g)"
  from assms(1) have u: "0 \<le> ?u" "?u \<le> 1" by (simp_all add: valid_rng_def less_imp_le)
  have eq: "fst (random_uniform a b g) = a + (b - a) * ?u"
    by (simp add: random_uniform_def random_random_def)
  from assms(2) u have "0 \<le> (b - a) * ?u" by simp
  moreover from assms(2) u have "(b - a) * ?u \<le> (b - a) * 1"
    by (intro mult_left_mono) simp_all
  ultimately show ?thesis unfolding eq by simp
qed

lemma choice_index_in_range:
  assumes "0 \<le> u" and "u < 1" and "0 < n"
  shows "nat \<lfloor>u * real n\<rfloor> < n"
proof -
  from assms have "u * real n < real n" by simp
  then have "\<lfloor>u * real n\<rfloor> < int n" by (simp add: floor_less_iff)
  moreover from assms have "0 \<le> \<lfloor>u * real n\<rfloor>" by simp
  ultimately show ?thesis by linarith
qed

lemma random_choice_Inr:
  "seq \<noteq> [] \<Longrightarrow> \<exists>x g'. random_choice seq g = Inr (x, g') \<and> py_tape g' = py_tape g
      \<and> np_tape g' = np_tape g \<and> np_pos g' = np_pos g"
  by (simp add: random_choice_def split_beta)

lemma random_choice_tape:
  "random_choice seq g = Inr (x, g') \<Longrightarrow> py_tape g' = py_tape g"
  by (auto simp: random_choice_def split_beta split: if_splits)

lemma random_choice_mem:
  assumes "valid_rng g" and "random_choice seq g = Inr (x, g')"
  shows "x \<in> set seq"
proof -
  from assms(2) have ne: "seq \<noteq> []" by (auto simp: random_choice_def split: if_splits)
  let ?u = "py_tape g (py_pos g)"
  from assms(1) have "0 \<le> ?u" "?u < 1" by (simp_all add: valid_rng_def)
  with ne have "nat \<lfloor>?u * real (length seq)\<rfloor> < length seq"
    by (intro choice_index_in_range) simp_all
  moreover from assms(2) ne have "x = seq ! nat \<lfloor>?u * real (length seq)\<rfloor>"
    by (simp add: random_choice_def random_random_def)
  ultimately show ?thesis by simp
qed

lemma random_choice_empty: "random_choice [] g = Inl IndexError"
  by (simp add: random_choice_def)

subsection \<open>Endpoint selection\<close>

lemma other_agent_exists:
  assumes "distinct population" and "2 \<le> length population"
  shows "filter (\<lambda>a. a \<noteq> s) population \<noteq> []"
proof -
  from assms(2) obtain a tl1 where p1: "population = a # tl1"
    by (cases population) simp_all
  with assms(2) obtain b rest where p2: "tl1 = b # rest"
    by (cases tl1) simp_all
  from assms(1) p1 p2 have "a \<noteq> b" by simp
  then have "a \<noteq> s \<or> b \<noteq> s" by blast
  moreover have "a \<in> set population" "b \<in> set population" by (simp_all add: p1 p2)
  ultimately have "\<exists>x \<in> set population. x \<noteq> s" by blast
  then show ?thesis by (simp only: filter_empty_conv) blast
qed

lemma select_endpoints_Inr:
  assumes "distinct population" and "2 \<le> length population"
  shows "\<exists>src dst g'. select_endpoints population g = Inr (src, dst, g')
           \<and> py_tape g' = py_tape g \<and> np_tape g' = np_tape g \<and> np_pos g' = np_pos g"
proof -
  from assms(2) have "population \<noteq> []" by auto
  from random_choice_Inr [OF this, of g] obtain src g1 where
    1: "random_choice population g = Inr (src, g1)" and t1: "py_tape g1 = py_tape g"
      "np_tape g1 = np_tape g" "np_pos g1 = np_pos g" by blast
  from random_choice_Inr [OF other_agent_exists [OF assms, of src], of g1] obtain dst g2 where
    2: "random_choice (filter (\<lambda>a. a \<noteq> src) population) g1 = Inr (dst, g2)"
    and t2: "py_tape g2 = py_tape g1" "np_tape g2 = np_tape g1" "np_pos g2 = np_pos g1" by blast
  from 1 2 t1 t2 show ?thesis by (simp add: select_endpoints_def)
qed

lemma select_endpoints_sound:
  assumes "valid_rng g" and "select_endpoints population g = Inr (src, dst, g')"
  shows "src \<in> set population \<and> dst \<in> set population \<and> src \<noteq> dst"
proof -
  from assms(2) obtain g1 where
    1: "random_choice population g = Inr (src, g1)" and
    2: "random_choice (filter (\<lambda>a. a \<noteq> src) population) g1 = Inr (dst, g')"
    by (auto simp: select_endpoints_def ebind_eq_Inr)
  from random_choice_tape [OF 1] assms(1) have v1: "valid_rng g1" by (rule valid_rng_tape)
  from random_choice_mem [OF assms(1) 1] random_choice_mem [OF v1 2] show ?thesis by auto
qed

lemma select_endpoints_small:
  assumes "valid_rng g" and "length population < 2"
  shows "select_endpoints population g = Inl IndexError"
proof (cases population)
  case Nil
  then show ?thesis by (simp add: select_endpoints_def random_choice_empty)
next
  case (Cons a rest)
  with assms(2) have p: "population = [a]" by simp
  obtain src g1 where 1: "random_choice [a] g = Inr (src, g1)"
    using random_choice_Inr [of "[a]" g] by auto
  from random_choice_mem [OF assms(1) 1] have "src = a" by simp
  with 1 show ?thesis by (simp add: p select_endpoints_def random_choice_empty)
qed

subsection \<open>Latency and one simulated message\<close>

lemma np_random_normal_array_shape:
  "np_random_normal_array loc scale rows cols g = Inr (W, g') \<Longrightarrow> has_shape W rows cols"
  by (auto simp: np_random_normal_array_def has_shape_def list_all_iff split: if_splits)

lemma init_nn_weights_shapes:
  assumes "init_nn_weights g = Inr (w, g')"
  shows "has_shape (latency_prediction w) 10 5 \<and> has_shape (load_balancing w) 8 4
         \<and> has_shape (failure_prediction w) 6 3"
proof -
  from assms obtain w1 g1 w2 g2 w3 where
    "np_random_normal_array 0 0.1 10 5 g = Inr (w1, g1)"
    "np_random_normal_array 0 0.1 8 4 g1 = Inr (w2, g2)"
    "np_random_normal_array 0 0.1 6 3 g2 = Inr (w3, g')"
    "w = \<lparr>latency_prediction = w1, load_balancing = w2, failure_prediction = w3\<rparr>"
    by (auto simp: init_nn_weights_def ebind_eq_Inr)
  then show ?thesis by (auto dest: np_random_normal_array_shape)
qed

lemma init_nn_weights_Inr: "\<exists>w g'. init_nn_weights g = Inr (w, g')"
  by (simp add: init_nn_weights_def np_random_normal_array_def)

lemma latency_features_length [simp]:
  "length (fst (latency_features sim sr dr sz q g)) = 10"
  by (simp add: latency_features_def split_beta Let_def)

lemma latency_features_tape [simp]:
  "py_tape (snd (latency_features sim sr dr sz q g)) = py_tape g"
  by (simp add: latency_features_def split_beta Let_def)

lemma base_latency_table_pos: "0 < base_latency_table q"
  by (cases q) simp_all

lemma np_random_normal_Inr:
  "0 \<le> scale \<Longrightarrow> \<exists>noise g'. np_random_normal loc scale g = Inr (noise, g') \<and> py_tape g' = py_tape g"
  by (simp add: np_random_normal_def)

lemma calculate_message_latency_tape:
  "calculate_message_latency sim sr dr sz q g = Inr (lat, g') \<Longrightarrow> py_tape g' = py_tape g"
  by (auto simp: calculate_message_latency_def ebind_eq_Inr Let_def split_beta
        np_random_normal_def split: if_splits)

lemma calculate_message_latency_Inr:
  assumes shape: "has_shape (latency_prediction (nn_weights sim)) 10 5"
    and valid: "valid_rng g"
  shows "\<exists>lat g'. calculate_message_latency sim sr dr sz q g = Inr (lat, g')"
proof -
  obtain features g1 where f: "latency_features sim sr dr sz q g = (features, g1)"
    by (cases "latency_features sim sr dr sz q g")
  from f have len: "length features = 10"
    using latency_features_length [of sim sr dr sz q g] by simp
  from f have "py_tape g1 = py_tape g"
    using latency_features_tape [of sim sr dr sz q g] by simp
  then have v1: "valid_rng g1" using valid by (rule valid_rng_tape)
  from shape len have "has_shape (latency_prediction (nn_weights sim)) (length features) 5"
    by simp
  from predict_formula [OF this] obtain p where
    p: "neural_network_predict features (latency_prediction (nn_weights sim)) = Inr p"
    by auto
  from predict_lower_bound [OF p] have ppos: "0 < 0.5 + p * 2" by simp
  define b where "b = fst (if sr \<noteq> dr
       then let (factor, g) = random_uniform 2.0 4.0 g1 in (base_latency_table q * factor, g)
       else (base_latency_table q, g1))"
  have bpos: "0 < b"
  proof (cases "sr = dr")
    case True
    then show ?thesis by (simp add: b_def base_latency_table_pos)
  next
    case False
    from random_uniform_range [OF v1, of 2 4] have "0 < fst (random_uniform 2 4 g1)" by simp
    with False show ?thesis by (simp add: b_def split_beta base_latency_table_pos)
  qed
  from bpos ppos have "0 < b * (0.5 + p * 2)" by simp
  then have sc: "\<not> b * (0.5 + p * 2) * 0.1 < 0" by simp
  show ?thesis
  proof (cases "sr = dr")
    case True
    with sc f p show ?thesis
      by (simp add: calculate_message_latency_def Let_def b_def np_random_normal_def)
  next
    case False
    with sc f p show ?thesis
      by (simp add: calculate_message_latency_def Let_def split_beta b_def np_random_normal_def)
  qed
qed

lemma simulate_message_processing_tape:
  "simulate_message_processing sim mt p g = Inr (lat, ok, sim', g') \<Longrightarrow> py_tape g' = py_tape g"
proof -
  assume a: "simulate_message_processing sim mt p g = Inr (lat, ok, sim', g')"
  then obtain src dst g1 g2 where
    1: "select_endpoints (agents sim) g = Inr (src, dst, g1)" and
    2: "calculate_message_latency sim (region src) (region dst) p (performance_class src) g1
          = Inr (lat, g2)" and
    3: "g' = snd (random_random (snd (random_uniform 0 0.1 g2)))"
    by (auto simp: simulate_message_processing_def ebind_eq_Inr Let_def split_beta)
  from 1 have "py_tape g1 = py_tape g"
    by (auto simp: select_endpoints_def ebind_eq_Inr dest!: random_choice_tape)
  with calculate_message_latency_tape [OF 2] 3 show ?thesis by simp
qed

lemma simulate_message_processing_Inr:
  assumes w: "weights_ok sim" and valid: "valid_rng g"
    and d: "distinct (agents sim)" and n: "2 \<le> length (agents sim)"
  shows "\<exists>lat ok g'. simulate_message_processing sim mt p g = Inr (lat, ok, sim, g')"
proof -
  from select_endpoints_Inr [OF d n, of g] obtain src dst g1 where
    1: "select_endpoints (agents sim) g = Inr (src, dst, g1)" and t1: "py_tape g1 = py_tape g"
    by blast
  from t1 valid have v1: "valid_rng g1" by (rule valid_rng_tape)
  from w have s1: "has_shape (latency_prediction (nn_weights sim)) 10 5"
    and s2: "has_shape (failure_prediction (nn_weights sim)) 6 3"
    by (simp_all add: weights_ok_def)
  from calculate_message_latency_Inr [OF s1 v1] obtain lat g2 where
    2: "calculate_message_latency sim (region src) (region dst) p (performance_class src) g1
          = Inr (lat, g2)" by blast
  let ?ff = "[lat / 1000.0, p / 100.0, load_factor src, load_factor dst,
              fst (random_uniform 0.0 0.1 g2), real (length (agents sim)) / 25000.0]"
  have "length ?ff = 6" by simp
  with s2 have "has_shape (failure_prediction (nn_weights sim)) (length ?ff) 3" by (simp only:)
  from predict_formula [OF this] obtain fp where
    3: "neural_network_predict ?ff (failure_prediction (nn_weights sim)) = Inr fp" by auto
  from 1 2 3 show ?thesis
    by (simp add: simulate_message_processing_def Let_def split_beta)
qed

lemma example_valid_rng: "valid_rng example_rng"
  by (simp add: valid_rng_def example_rng_def)

lemma example_weights_ok: "weights_ok example_simulator"
  by (simp add: weights_ok_def example_simulator_def has_shape_def list_all_iff)

lemma example_population: "distinct (agents example_simulator) \<and> 2 \<le> length (agents example_simulator)"
  by (simp add: example_simulator_def example_agents_def)

lemma example_calculate_message_latency:
  "(case calculate_message_latency example_simulator ''eu-west-1'' ''us-east-1'' 10 INTERACTIVE
           example_rng
     of Inl e \<Rightarrow> False
      | Inr (lat, g) \<Rightarrow> lat = 753 / 5 \<and> py_pos g = 6 \<and> np_pos g = 1)"
  by code_simp

lemma example_simulate_message_processing:
  "(case simulate_message_processing example_simulator CALL 10 example_rng
     of Inl e \<Rightarrow> False
      | Inr (lat, ok, sim, g) \<Rightarrow> lat = 753 / 5 \<and> \<not> ok \<and> py_pos g = 10 \<and> np_pos g = 1)"
  by code_simp

lemma latency_features_np [simp]:
  "np_tape (snd (latency_features sim sr dr sz q g)) = np_tape g"
  "np_pos (snd (latency_features sim sr dr sz q g)) = np_pos g"
  by (simp_all add: latency_features_def split_beta Let_def)

lemma calculate_message_latency_shape:
  assumes valid: "valid_rng g"
    and run: "calculate_message_latency sim sr dr sz q g = Inr (lat, g')"
  shows "\<exists>features g1 predicted factor.
           latency_features sim sr dr sz q g = (features, g1)
           \<and> neural_network_predict features (latency_prediction (nn_weights sim)) = Inr predicted
           \<and> (if sr \<noteq> dr
               then factor = fst (random_uniform 2 4 g1) \<and> 2 \<le> factor \<and> factor \<le> 4
               else factor = 1)
           \<and> lat = max 10 (base_latency_table q * factor * (0.5 + predicted * 2)
                           + base_latency_table q * factor * (0.5 + predicted * 2) * 0.1
                             * np_tape g (np_pos g))"
proof -
  obtain features g1 where f: "latency_features sim sr dr sz q g = (features, g1)"
    by (cases "latency_features sim sr dr sz q g")
  from f have "py_tape g1 = py_tape g"
    using latency_features_tape [of sim sr dr sz q g] by simp
  then have v1: "valid_rng g1" using valid by (rule valid_rng_tape)
  from f have np: "np_tape g1 = np_tape g" "np_pos g1 = np_pos g"
    using latency_features_np [of sim sr dr sz q g] by simp_all
  from run f obtain predicted where
    p: "neural_network_predict features (latency_prediction (nn_weights sim)) = Inr predicted"
    by (auto simp: calculate_message_latency_def ebind_eq_Inr Let_def split_beta)
  show ?thesis
  proof (cases "sr = dr")
    case True
    from run f p True np have
      "lat = max 10 (base_latency_table q * 1 * (0.5 + predicted * 2)
                     + base_latency_table q * 1 * (0.5 + predicted * 2) * 0.1
                       * np_tape g (np_pos g))"
      by (auto simp: calculate_message_latency_def ebind_eq_Inr Let_def
            np_random_normal_def split: if_splits)
    with f p True show ?thesis by auto
  next
    case False
    let ?factor = "fst (random_uniform 2 4 g1)"
    from random_uniform_range [OF v1, of 2 4] have r: "2 \<le> ?factor \<and> ?factor \<le> 4" by simp
    from run f p False np have
      "lat = max 10 (base_latency_table q * ?factor * (0.5 + predicted * 2)
                     + base_latency_table q * ?factor * (0.5 + predicted * 2) * 0.1
                       * np_tape g (np_pos g))"
      by (auto simp: calculate_message_latency_def ebind_eq_Inr Let_def split_beta
            np_random_normal_def split: if_splits)
    with f p False r show ?thesis by auto
  qed
qed

subsection \<open>The large-scale loops\<close>

lemma message_loop_counts:
  "message_loop n sim c g = Inr (c', sim', g') \<Longrightarrow>
   total_messages c' = total_messages c + n
   \<and> length (latencies c') = length (latencies c) + n
   \<and> successful_messages c' + failed_messages c'
       = successful_messages c + failed_messages c + n
   \<and> sim' = sim \<and> py_tape g' = py_tape g"
proof (induction n arbitrary: c g)
  case 0
  then show ?case by simp
next
  case (Suc n)
  from Suc.prems obtain mt g1 lat ok sim1 g3 c1 where
    1: "random_choice list_MessageType g = Inr (mt, g1)" and
    2: "simulate_message_processing sim mt (fst (random_uniform 1 500 g1))
          (snd (random_uniform 1 500 g1)) = Inr (lat, ok, sim1, g3)" and
    c1: "c1 = c\<lparr>total_messages := total_messages c + 1,
                 total_latency := total_latency c + lat,
                 latencies := latencies c @ [lat],
                 successful_messages :=
                   (if ok then successful_messages c + 1 else successful_messages c),
                 failed_messages :=
                   (if ok then failed_messages c else failed_messages c + 1)\<rparr>" and
    3: "message_loop n sim1 c1 g3 = Inr (c', sim', g')"
    by (auto simp: ebind_eq_Inr Let_def split_beta)
  from simulate_unfold [OF 2] have s: "sim1 = sim" by simp
  from random_choice_tape [OF 1] simulate_message_processing_tape [OF 2]
  have t: "py_tape g3 = py_tape g" by simp
  from 3 s have "message_loop n sim c1 g3 = Inr (c', sim', g')" by simp
  from Suc.IH [OF this] t show ?case by (simp add: c1)
qed

lemma message_loop_Inr:
  assumes "weights_ok sim" and "distinct (agents sim)" and "2 \<le> length (agents sim)"
  shows "valid_rng g \<Longrightarrow> \<exists>c' g'. message_loop n sim c g = Inr (c', sim, g')"
proof (induction n arbitrary: c g)
  case 0
  then show ?case by simp
next
  case (Suc n)
  have "list_MessageType \<noteq> []" by (simp add: list_MessageType_def)
  from random_choice_Inr [OF this, of g] obtain mt g1 where
    1: "random_choice list_MessageType g = Inr (mt, g1)" and t1: "py_tape g1 = py_tape g"
    by blast
  let ?g2 = "snd (random_uniform 1 500 g1)"
  have "py_tape ?g2 = py_tape g" using t1 by simp
  then have v2: "valid_rng ?g2" using Suc.prems by (rule valid_rng_tape)
  from simulate_message_processing_Inr [OF assms(1) v2 assms(2,3)] obtain lat ok g3 where
    2: "simulate_message_processing sim mt (fst (random_uniform 1 500 g1)) ?g2
          = Inr (lat, ok, sim, g3)" by blast
  from simulate_message_processing_tape [OF 2] have "py_tape g3 = py_tape ?g2" .
  then have v3: "valid_rng g3" using v2 by (rule valid_rng_tape)
  from Suc.IH [OF v3] 1 2 show ?case by (simp add: Let_def split_beta)
qed

lemma second_loop_counts:
  "second_loop mps secs sim c g = Inr (c', sim', g') \<Longrightarrow>
   total_messages c' = total_messages c + mps * length secs
   \<and> length (latencies c') = length (latencies c) + mps * length secs
   \<and> successful_messages c' + failed_messages c'
       = successful_messages c + failed_messages c + mps * length secs
   \<and> sim' = sim\<lparr>simulation_time := simulation_time sim'\<rparr> \<and> py_tape g' = py_tape g"
proof (induction secs arbitrary: sim c g)
  case Nil
  then show ?case by simp
next
  case (Cons second rest)
  from Cons.prems obtain c1 sim1 g1 where
    1: "message_loop mps (sim\<lparr>simulation_time := real second\<rparr>) c g = Inr (c1, sim1, g1)" and
    2: "second_loop mps rest sim1 c1 g1 = Inr (c', sim', g')"
    by (auto simp: ebind_eq_Inr)
  from message_loop_counts [OF 1] Cons.IH [OF 2] show ?case
    by (auto simp: algebra_simps)
qed


lemma second_loop_Inr:
  assumes "weights_ok sim" and "distinct (agents sim)" and "2 \<le> length (agents sim)"
  shows "valid_rng g \<Longrightarrow> \<exists>c' sim' g'. second_loop mps secs sim c g = Inr (c', sim', g')"
  using assms
proof (induction secs arbitrary: sim c g)
  case Nil
  then show ?case by simp
next
  case (Cons second rest)
  let ?sim = "sim\<lparr>simulation_time := real second\<rparr>"
  from Cons.prems have w: "weights_ok ?sim" and d: "distinct (agents ?sim)"
    and n: "2 \<le> length (agents ?sim)"
    by (simp_all add: weights_ok_def)
  from message_loop_Inr [OF w d n Cons.prems(1), of mps c] obtain c1 g1 where
    1: "message_loop mps ?sim c g = Inr (c1, ?sim, g1)" by blast
  from message_loop_counts [OF 1] have "py_tape g1 = py_tape g" by simp
  then have v1: "valid_rng g1" using Cons.prems(1) by (rule valid_rng_tape)
  from Cons.IH [OF v1 w d n, of c1] 1 show ?case by simp
qed

lemma large_scale_loops_counts:
  assumes "0 < d" and "large_scale_loops sim d g = Inr (c, sim', g')"
  shows "int (total_messages c) = d * (900000 div d)
         \<and> length (latencies c) = total_messages c
         \<and> successful_messages c + failed_messages c = total_messages c
         \<and> sim' = sim\<lparr>simulation_time := simulation_time sim'\<rparr> \<and> py_tape g' = py_tape g"
proof -
  from assms have
    "second_loop (nat (900000 div d)) [0 ..< nat d] sim
       \<lparr>total_messages = 0, total_latency = 0, successful_messages = 0,
        failed_messages = 0, latencies = []\<rparr> g = Inr (c, sim', g')"
    by (simp add: large_scale_loops_def Let_def)
  from second_loop_counts [OF this] have
    t: "total_messages c = nat (900000 div d) * nat d" and
    rest: "length (latencies c) = nat (900000 div d) * nat d"
      "successful_messages c + failed_messages c = nat (900000 div d) * nat d"
      "sim' = sim\<lparr>simulation_time := simulation_time sim'\<rparr>" "py_tape g' = py_tape g"
    by simp_all
  from assms(1) have "0 \<le> 900000 div d" by (simp add: pos_imp_zdiv_nonneg_iff)
  with assms(1) have "int (nat (900000 div d) * nat d) = d * (900000 div d)" by simp
  with t rest show ?thesis by simp
qed

lemma large_scale_loops_Inr:
  assumes "d \<noteq> 0" and "weights_ok sim" and "valid_rng g"
    and "distinct (agents sim)" and "2 \<le> length (agents sim)"
  shows "\<exists>c sim' g'. large_scale_loops sim d g = Inr (c, sim', g')"
  using assms(1) second_loop_Inr [OF assms(2,4,5,3)]
  by (simp add: large_scale_loops_def Let_def)

lemma run_large_scale_simulation_Inr:
  assumes "0 < d" and "d \<le> 900000" and "elapsed \<noteq> 0" and "weights_ok sim" and "valid_rng g"
    and "distinct (agents sim)" and "2 \<le> length (agents sim)"
  shows "\<exists>m sim' g'. run_large_scale_simulation sim d elapsed g = Inr (m, sim', g')"
proof -
  from assms(1) have "d \<noteq> 0" by simp
  from large_scale_loops_Inr [OF this assms(4,5,6,7)] obtain c sim' g' where
    1: "large_scale_loops sim d g = Inr (c, sim', g')" by blast
  from large_scale_loops_counts [OF assms(1) 1] have t: "int (total_messages c) = d * (900000 div d)"
    by simp
  from assms(1,2) have "d div d \<le> 900000 div d" by (intro zdiv_mono1)
  with assms(1) have "1 \<le> 900000 div d" by simp
  with assms(1) have "0 < d * (900000 div d)" by simp
  with t have "total_messages c \<noteq> 0" by auto
  with 1 assms(3) show ?thesis
    by (simp add: run_large_scale_simulation_def Let_def split_beta)
qed


lemma run_large_scale_simulation_frame:
  assumes "run_large_scale_simulation sim d elapsed g = Inr (m, sim', g')"
  shows "sim' = sim\<lparr>simulation_time := simulation_time sim'\<rparr>"
proof -
  from assms obtain c g1 where 1: "large_scale_loops sim d g = Inr (c, sim', g1)"
    by (auto simp: run_large_scale_simulation_def ebind_eq_Inr Let_def split_beta
          split: if_splits)
  then have "second_loop (nat (900000 div d)) [0 ..< nat d] sim
       \<lparr>total_messages = 0, total_latency = 0, successful_messages = 0,
        failed_messages = 0, latencies = []\<rparr> g = Inr (c, sim', g1)"
    by (simp add: large_scale_loops_def Let_def split: if_splits)
  from second_loop_counts [OF this] show ?thesis by simp
qed

subsection \<open>The build pipeline\<close>

lemma build_trial_stages:
  assumes "build_trial sim g = Inr (t, s, sim', g')"
  shows "sim' = sim \<and> py_tape g' = py_tape g
         \<and> (\<exists>l1 s1 gb l2 s2.
               simulate_message_processing sim CALL (fst (random_uniform 50 200 g))
                 (snd (random_uniform 50 200 g)) = Inr (l1, s1, sim, gb)
               \<and> simulate_message_processing sim CALL (fst (random_uniform 30 150 gb))
                   (snd (random_uniform 30 150 gb)) = Inr (l2, s2, sim, g')
               \<and> t = l1 + l2 \<and> s = (s1 \<and> s2))"
proof -
  let ?p1 = "fst (random_uniform 50 200 g)" and ?ga = "snd (random_uniform 50 200 g)"
  from assms obtain l1 s1 sim1 gb where
    1: "simulate_message_processing sim CALL ?p1 ?ga = Inr (l1, s1, sim1, gb)"
    by (auto simp: build_trial_def ebind_eq_Inr Let_def split_beta)
  from simulate_unfold [OF 1] have e1: "sim1 = sim" by simp
  let ?p2 = "fst (random_uniform 30 150 gb)" and ?gc = "snd (random_uniform 30 150 gb)"
  from assms 1 obtain l2 s2 sim2 where
    2: "simulate_message_processing sim1 CALL ?p2 ?gc = Inr (l2, s2, sim2, g')"
    and r: "t = l1 + l2" "s = (s1 \<and> s2)" "sim' = sim2"
    by (auto simp: build_trial_def ebind_eq_Inr Let_def split_beta)
  from simulate_unfold [OF 2] e1 have e2: "sim2 = sim" by simp
  from simulate_message_processing_tape [OF 1] simulate_message_processing_tape [OF 2]
  have "py_tape g' = py_tape g" by simp
  with 1 2 r e1 e2 show ?thesis by blast
qed

lemma build_trial_Inr:
  assumes w: "weights_ok sim" and v: "valid_rng g"
    and d: "distinct (agents sim)" and n: "2 \<le> length (agents sim)"
  shows "\<exists>t s g'. build_trial sim g = Inr (t, s, sim, g')"
proof -
  let ?p1 = "fst (random_uniform 50 200 g)" and ?ga = "snd (random_uniform 50 200 g)"
  have "py_tape ?ga = py_tape g" by simp
  then have va: "valid_rng ?ga" using v by (rule valid_rng_tape)
  from simulate_message_processing_Inr [OF w va d n] obtain l1 s1 gb where
    1: "simulate_message_processing sim CALL ?p1 ?ga = Inr (l1, s1, sim, gb)" by blast
  let ?p2 = "fst (random_uniform 30 150 gb)" and ?gc = "snd (random_uniform 30 150 gb)"
  from simulate_message_processing_tape [OF 1] have "py_tape ?gc = py_tape ?ga" by simp
  then have vc: "valid_rng ?gc" using va by (rule valid_rng_tape)
  from simulate_message_processing_Inr [OF w vc d n] obtain l2 s2 gd where
    2: "simulate_message_processing sim CALL ?p2 ?gc = Inr (l2, s2, sim, gd)" by blast
  from 1 2 show ?thesis by (simp add: build_trial_def Let_def split_beta)
qed

lemma build_loop_trials:
  "build_loop n sim c g = Inr (c', sim', g') \<Longrightarrow>
   \<exists>trials. stage_results n sim g = Inr (trials, g')
     \<and> length trials = n
     \<and> build_latencies c' = build_latencies c @ map (\<lambda>(l1, s1, l2, s2). l1 + l2) trials
     \<and> successful_builds c'
         = successful_builds c + length (filter (\<lambda>(l1, s1, l2, s2). s1 \<and> s2) trials)
     \<and> total_builds c' = total_builds c + n
     \<and> sim' = sim \<and> py_tape g' = py_tape g"
proof (induction n arbitrary: c g)
  case 0
  then show ?case by simp
next
  case (Suc n)
  from Suc.prems obtain t s sim1 g1 where
    1: "build_trial sim g = Inr (t, s, sim1, g1)" and
    2: "build_loop n sim1
          (c\<lparr>total_builds := total_builds c + 1,
             build_latencies := build_latencies c @ [t],
             successful_builds := (if s then successful_builds c + 1 else successful_builds c)\<rparr>)
          g1 = Inr (c', sim', g')"
    by (auto simp: ebind_eq_Inr)
  from build_trial_stages [OF 1] obtain l1 s1 gb l2 s2 where
    e: "sim1 = sim" and tp: "py_tape g1 = py_tape g" and
    st: "simulate_message_processing sim CALL (fst (random_uniform 50 200 g))
           (snd (random_uniform 50 200 g)) = Inr (l1, s1, sim, gb)"
        "simulate_message_processing sim CALL (fst (random_uniform 30 150 gb))
           (snd (random_uniform 30 150 gb)) = Inr (l2, s2, sim, g1)"
        "t = l1 + l2" "s = (s1 \<and> s2)"
    by blast
  from 2 e have "build_loop n sim
          (c\<lparr>total_builds := total_builds c + 1,
             build_latencies := build_latencies c @ [t],
             successful_builds := (if s then successful_builds c + 1 else successful_builds c)\<rparr>)
          g1 = Inr (c', sim', g')" by simp
  from Suc.IH [OF this] obtain trials where
    ih: "stage_results n sim g1 = Inr (trials, g')"
      "length trials = n"
      "build_latencies c' = (build_latencies c @ [t]) @ map (\<lambda>(l1, s1, l2, s2). l1 + l2) trials"
      "successful_builds c' = (if s then successful_builds c + 1 else successful_builds c)
          + length (filter (\<lambda>(l1, s1, l2, s2). s1 \<and> s2) trials)"
      "total_builds c' = total_builds c + 1 + n"
      "sim' = sim" "py_tape g' = py_tape g1"
    by auto
  let ?trials = "(l1, s1, l2, s2) # trials"
  have z: "stage_results (Suc n) sim g = Inr (?trials, g')"
    using st(1,2) ih(1) by (simp add: Let_def split_beta)
  have a: "length ?trials = Suc n" using ih(2) by simp
  have b: "build_latencies c' = build_latencies c @ map (\<lambda>(l1, s1, l2, s2). l1 + l2) ?trials"
    using ih(3) st(3) by simp
  have c: "successful_builds c'
         = successful_builds c + length (filter (\<lambda>(l1, s1, l2, s2). s1 \<and> s2) ?trials)"
    using ih(4) st(4) by simp
  have d: "total_builds c' = total_builds c + Suc n" using ih(5) by simp
  have f: "sim' = sim \<and> py_tape g' = py_tape g" using ih(6,7) tp by simp
  from z a b c d f show ?case by blast
qed

lemma build_loop_Inr:
  assumes "weights_ok sim" and "distinct (agents sim)" and "2 \<le> length (agents sim)"
  shows "valid_rng g \<Longrightarrow> \<exists>c' g'. build_loop n sim c g = Inr (c', sim, g')"
proof (induction n arbitrary: c g)
  case 0
  then show ?case by simp
next
  case (Suc n)
  from build_trial_Inr [OF assms(1) Suc.prems assms(2,3)] obtain t s g1 where
    1: "build_trial sim g = Inr (t, s, sim, g1)" by blast
  from build_trial_stages [OF 1] have "py_tape g1 = py_tape g" by simp
  then have v1: "valid_rng g1" using Suc.prems by (rule valid_rng_tape)
  from Suc.IH [OF v1] 1 show ?case by simp
qed

lemma run_build_system_simulation_Inr:
  assumes "weights_ok sim" and "valid_rng g" and "distinct (agents sim)"
    and "2 \<le> length (agents sim)"
  shows "\<exists>m g'. run_build_system_simulation sim g = Inr (m, sim, g')"
proof -
  from build_loop_Inr [OF assms(1,3,4,2)] obtain c g1 where
    1: "build_loop 1000 sim \<lparr>total_builds = 0, successful_builds = 0, build_latencies = []\<rparr> g
          = Inr (c, sim, g1)" by blast
  from build_loop_trials [OF 1] have "total_builds c = 1000" by auto
  with 1 show ?thesis by (simp add: run_build_system_simulation_def Let_def split_beta)
qed


section \<open>The claims about the simulator\<close>

text \<open>
  C2. Whatever the generator state, the population, the QoS class and the payload
  size, a latency that \<open>_calculate_message_latency\<close> returns is at least 10.0,
  and so is every latency that \<open>_simulate_message_processing\<close> returns; with the
  10 by 5 weight matrix of \<open>__init__\<close> and a generator whose draws lie in
  \<open>[0, 1)\<close> the latency calculation does return.
\<close>

theorem latency_floor:
  "(calculate_message_latency sim sr dr sz q g = Inr (lat, g') \<longrightarrow> 10 \<le> lat)
   \<and> (simulate_message_processing sim mt p h = Inr (lat2, ok, sim', h') \<longrightarrow> 10 \<le> lat2)
   \<and> (has_shape (latency_prediction (nn_weights sim)) 10 5 \<and> valid_rng g \<longrightarrow>
        (\<exists>l k. calculate_message_latency sim sr dr sz q g = Inr (l, k) \<and> 10 \<le> l))"
proof (intro conjI impI)
  assume "calculate_message_latency sim sr dr sz q g = Inr (lat, g')"
  then show "10 \<le> lat" by (rule latency_floor_calc)
next
  assume "simulate_message_processing sim mt p h = Inr (lat2, ok, sim', h')"
  from simulate_unfold [OF this] show "10 \<le> lat2" by (auto dest: latency_floor_calc)
next
  assume "has_shape (latency_prediction (nn_weights sim)) 10 5 \<and> valid_rng g"
  then obtain l k where "calculate_message_latency sim sr dr sz q g = Inr (l, k)"
    using calculate_message_latency_Inr [of sim g sr dr sz q] by blast
  then show "\<exists>l k. calculate_message_latency sim sr dr sz q g = Inr (l, k) \<and> 10 \<le> l"
    using latency_floor_calc by blast
qed

theorem latency_floor_witness:
  "has_shape (latency_prediction (nn_weights example_simulator)) 10 5
   \<and> valid_rng example_rng
   \<and> (\<exists>g'. calculate_message_latency example_simulator ''eu-west-1'' ''us-east-1'' 10
              INTERACTIVE example_rng = Inr (753 / 5, g'))
   \<and> (\<exists>ok sim' g'. simulate_message_processing example_simulator CALL 10 example_rng
              = Inr (753 / 5, ok, sim', g'))
   \<and> (10 :: real) \<le> 753 / 5"
proof -
  have s: "has_shape (latency_prediction (nn_weights example_simulator)) 10 5"
    using example_weights_ok by (simp add: weights_ok_def)
  from example_calculate_message_latency obtain g' where
    c: "calculate_message_latency example_simulator ''eu-west-1'' ''us-east-1'' 10
          INTERACTIVE example_rng = Inr (753 / 5, g')"
    by (auto split: sum.splits)
  from example_simulate_message_processing obtain ok sim' h' where
    m: "simulate_message_processing example_simulator CALL 10 example_rng
          = Inr (753 / 5, ok, sim', h')"
    by (auto split: sum.splits)
  from c latency_floor [of example_simulator "''eu-west-1''" "''us-east-1''" 10 INTERACTIVE
      example_rng "753 / 5" g' CALL 10 example_rng "753 / 5" ok sim' h']
  have "(10 :: real) \<le> 753 / 5" by blast
  with s example_valid_rng c m show ?thesis by blast
qed

text \<open>
  C10. The \<open>message_type\<close> argument has no influence: two calls of
  \<open>_simulate_message_processing\<close> that differ only in it, on the same simulator,
  generator state and payload size, give the same outcome (the same latency and
  success, the same error, the same generator state afterwards).
\<close>

theorem message_type_has_no_influence:
  "simulate_message_processing sim message_type_1 payload_size_kb g
     = simulate_message_processing sim message_type_2 payload_size_kb g"
  by (simp add: simulate_message_processing_def)

text \<open>
  C5. For a feature vector \<open>x\<close> and a weight matrix \<open>W\<close> with one row per
  feature and \<open>m > 0\<close> columns, \<open>_neural_network_predict\<close> is the arithmetic mean
  over the columns \<open>j\<close> of \<open>max(0, sum_i x[i] * W[i][j])\<close>, floored at 0.001. It
  is a function of its two arguments alone, and whatever it returns is at least
  0.001, hence never negative; for a matrix with no column (the mean is numpy's
  nan) that is 0.001 itself.
\<close>

theorem neural_network_predict_mean_relu:
  "(has_shape W (length x) m \<and> 0 < m \<longrightarrow>
      neural_network_predict x W
        = Inr (max 0.001 ((\<Sum>j<m. max 0 (\<Sum>i<length x. x ! i * W ! i ! j)) / real m)))
   \<and> (has_shape W (length x) 0 \<longrightarrow> neural_network_predict x W = Inr 0.001)
   \<and> (neural_network_predict x W = Inr y \<longrightarrow> 0.001 \<le> y \<and> 0 < y)"
proof (intro conjI impI)
  assume "has_shape W (length x) m \<and> 0 < m"
  then show "neural_network_predict x W
        = Inr (max 0.001 ((\<Sum>j<m. max 0 (\<Sum>i<length x. x ! i * W ! i ! j)) / real m))"
    using predict_formula [of W x m] by blast
next
  assume "has_shape W (length x) 0"
  then show "neural_network_predict x W = Inr 0.001" by (rule predict_no_columns)
next
  assume a: "neural_network_predict x W = Inr y"
  from predict_lower_bound [OF a] show "0.001 \<le> y" .
  from predict_lower_bound [OF a] show "0 < y" by simp
qed

lemma example_neural_network_predict:
  "neural_network_predict [1, 2] [[1, - 1], [1, 1]] = Inr 2"
  by code_simp

theorem neural_network_predict_mean_relu_witness:
  "has_shape [[1, - 1], [1, 1]] (length [1, 2 :: real]) 2 \<and> (0 :: nat) < 2
   \<and> neural_network_predict [1, 2] [[1, - 1], [1, 1]] = Inr 2
   \<and> Inr 2 = (Inr (max 0.001 ((\<Sum>j<2. max 0 (\<Sum>i<length [1, 2 :: real].
                  [1, 2] ! i * [[1, - 1], [1, 1]] ! i ! j)) / real 2)) :: py_error + real)
   \<and> (0.001 :: real) \<le> 2
   \<and> has_shape [[], []] (length [1, 2 :: real]) 0
   \<and> neural_network_predict [1, 2] [[], []] = Inr 0.001"
proof -
  have s: "has_shape [[1, - 1], [1, 1]] (length [1, 2 :: real]) 2 \<and> (0 :: nat) < 2"
    by (simp add: has_shape_def)
  note t = neural_network_predict_mean_relu [of "[[1, - 1], [1, 1]]" "[1, 2]" 2 2]
  have e: "has_shape [[], []] (length [1, 2 :: real]) 0" by (simp add: has_shape_def)
  note t0 = neural_network_predict_mean_relu [of "[[], []]" "[1, 2]" 0 0]
  from t s example_neural_network_predict have
    "Inr 2 = (Inr (max 0.001 ((\<Sum>j<2. max 0 (\<Sum>i<length [1, 2 :: real].
                  [1, 2] ! i * [[1, - 1], [1, 1]] ! i ! j)) / real 2)) :: py_error + real)"
    by (simp only:)
  moreover from t example_neural_network_predict have "(0.001 :: real) \<le> 2" by blast
  moreover from t0 e have "neural_network_predict [1, 2] [[], []] = Inr 0.001" by blast
  ultimately show ?thesis using s e example_neural_network_predict by blast
qed



text \<open>
  C4. The latency of a message is \<open>max(10, final + noise)\<close> where \<open>final\<close> is
  \<open>base * factor * (0.5 + 2 * predicted)\<close>: \<open>base\<close> is 50, 150 or 500 by the QoS
  class the latency is calculated with, \<open>factor\<close> is 1 when the two regions are
  equal and otherwise one uniform draw from \<open>[2, 4]\<close>, applied before the scoring
  adjustment, and \<open>noise\<close> is a tenth of \<open>final\<close> times a standard normal draw.
  \<open>_simulate_message_processing\<close> calculates it with the regions of the selected
  endpoints and the QoS class of the source agent.
\<close>

theorem base_latency_by_qos_and_region:
  "(valid_rng g \<and> calculate_message_latency sim sr dr sz q g = Inr (lat, g') \<longrightarrow>
      (\<exists>features g1 predicted factor.
          latency_features sim sr dr sz q g = (features, g1)
          \<and> neural_network_predict features (latency_prediction (nn_weights sim)) = Inr predicted
          \<and> (if sr \<noteq> dr
              then factor = fst (random_uniform 2 4 g1) \<and> 2 \<le> factor \<and> factor \<le> 4
              else factor = 1)
          \<and> lat = max 10 (base_latency_table q * factor * (0.5 + predicted * 2)
                          + base_latency_table q * factor * (0.5 + predicted * 2) * 0.1
                            * np_tape g (np_pos g))))
   \<and> base_latency_table q = (case q of REALTIME \<Rightarrow> 50 | INTERACTIVE \<Rightarrow> 150 | BATCH \<Rightarrow> 500)
   \<and> (simulate_message_processing sim mt p h = Inr (lat2, ok, sim', h') \<longrightarrow>
        (\<exists>src dst h1 h2. select_endpoints (agents sim) h = Inr (src, dst, h1)
           \<and> calculate_message_latency sim (region src) (region dst) p
                (performance_class src) h1 = Inr (lat2, h2)))"
proof (intro conjI impI)
  assume "valid_rng g \<and> calculate_message_latency sim sr dr sz q g = Inr (lat, g')"
  then show "\<exists>features g1 predicted factor.
          latency_features sim sr dr sz q g = (features, g1)
          \<and> neural_network_predict features (latency_prediction (nn_weights sim)) = Inr predicted
          \<and> (if sr \<noteq> dr
              then factor = fst (random_uniform 2 4 g1) \<and> 2 \<le> factor \<and> factor \<le> 4
              else factor = 1)
          \<and> lat = max 10 (base_latency_table q * factor * (0.5 + predicted * 2)
                          + base_latency_table q * factor * (0.5 + predicted * 2) * 0.1
                            * np_tape g (np_pos g))"
    using calculate_message_latency_shape [of g sim sr dr sz q lat g'] by blast
next
  show "base_latency_table q = (case q of REALTIME \<Rightarrow> 50 | INTERACTIVE \<Rightarrow> 150 | BATCH \<Rightarrow> 500)"
    by (cases q) simp_all
next
  assume "simulate_message_processing sim mt p h = Inr (lat2, ok, sim', h')"
  from simulate_unfold [OF this]
  show "\<exists>src dst h1 h2. select_endpoints (agents sim) h = Inr (src, dst, h1)
           \<and> calculate_message_latency sim (region src) (region dst) p
                (performance_class src) h1 = Inr (lat2, h2)" by blast
qed

theorem base_latency_by_qos_and_region_witness:
  "valid_rng example_rng
   \<and> (\<exists>g'. calculate_message_latency example_simulator ''eu-west-1'' ''us-east-1'' 10
              INTERACTIVE example_rng = Inr (753 / 5, g'))
   \<and> (\<exists>predicted factor. 2 \<le> factor \<and> factor \<le> 4
         \<and> (753 / 5 :: real) = max 10 (150 * factor * (0.5 + predicted * 2)
                          + 150 * factor * (0.5 + predicted * 2) * 0.1
                            * np_tape example_rng (np_pos example_rng)))
   \<and> (\<exists>ok sim' h' src dst h1 h2.
         simulate_message_processing example_simulator CALL 10 example_rng
           = Inr (753 / 5, ok, sim', h')
         \<and> select_endpoints (agents example_simulator) example_rng = Inr (src, dst, h1)
         \<and> calculate_message_latency example_simulator (region src) (region dst) 10
                (performance_class src) h1 = Inr (753 / 5, h2))"
proof -
  from example_calculate_message_latency obtain g' where
    c: "calculate_message_latency example_simulator ''eu-west-1'' ''us-east-1'' 10
          INTERACTIVE example_rng = Inr (753 / 5, g')"
    by (auto split: sum.splits)
  from example_simulate_message_processing obtain ok sim' h' where
    m: "simulate_message_processing example_simulator CALL 10 example_rng
          = Inr (753 / 5, ok, sim', h')"
    by (auto split: sum.splits)
  note t = base_latency_by_qos_and_region [of example_rng example_simulator "''eu-west-1''"
      "''us-east-1''" 10 INTERACTIVE "753 / 5" g' CALL 10 example_rng "753 / 5" ok sim' h']
  have ne: "''eu-west-1'' \<noteq> ''us-east-1''" by simp
  from t example_valid_rng c obtain features g1 predicted factor where
    "(if ''eu-west-1'' \<noteq> ''us-east-1''
      then factor = fst (random_uniform 2 4 g1) \<and> 2 \<le> factor \<and> factor \<le> 4
      else factor = 1)"
    and l: "(753 / 5 :: real) = max 10 (base_latency_table INTERACTIVE * factor * (0.5 + predicted * 2)
                          + base_latency_table INTERACTIVE * factor * (0.5 + predicted * 2) * 0.1
                            * np_tape example_rng (np_pos example_rng))"
    by blast
  with ne have f: "2 \<le> factor \<and> factor \<le> 4" by simp
  from l have l': "(753 / 5 :: real) = max 10 (150 * factor * (0.5 + predicted * 2)
                          + 150 * factor * (0.5 + predicted * 2) * 0.1
                            * np_tape example_rng (np_pos example_rng))"
    by (simp only: base_latency_table.simps)
  from t m obtain src dst h1 h2 where
    "select_endpoints (agents example_simulator) example_rng = Inr (src, dst, h1)
     \<and> calculate_message_latency example_simulator (region src) (region dst) 10
                (performance_class src) h1 = Inr (753 / 5, h2)" by blast
  with example_valid_rng c f l' m show ?thesis by blast
qed

lemma simulate_message_processing_small:
  assumes "valid_rng g" and "length (agents sim) < 2"
  shows "simulate_message_processing sim mt p g = Inl IndexError"
  using select_endpoints_small [OF assms]
  by (simp add: simulate_message_processing_def)

lemma run_build_system_simulation_unfold:
  assumes "run_build_system_simulation sim g = Inr (m, sim', g')"
  shows "\<exists>c g1. build_loop 1000 sim
              \<lparr>total_builds = 0, successful_builds = 0, build_latencies = []\<rparr> g
            = Inr (c, sim', g1)
          \<and> error_count m = int (total_builds c) - int (successful_builds c)
          \<and> latency_ms m = np_median (build_latencies c)
          \<and> success_rate m = real (successful_builds c) / real (total_builds c) * 100"
  using assms
  by (auto simp: run_build_system_simulation_def ebind_eq_Inr Let_def split_beta
        split: if_splits)

text \<open>
  C8. With a generator whose draws lie in \<open>[0, 1)\<close>: on a population of at
  least two pairwise distinct agents the selection of \<open>_simulate_message_processing\<close>
  returns a source and a destination of the population that differ, and
  whenever the method returns, it has calculated the latency for two endpoints
  that differ; on a population of fewer than two agents the selection, and with
  it the method, raises IndexError and returns nothing.
\<close>

theorem endpoint_selection:
  "valid_rng g \<longrightarrow>
     (distinct (agents sim) \<and> 2 \<le> length (agents sim) \<longrightarrow>
        (\<exists>src dst g1. select_endpoints (agents sim) g = Inr (src, dst, g1)
           \<and> src \<in> set (agents sim) \<and> dst \<in> set (agents sim) \<and> src \<noteq> dst))
     \<and> (simulate_message_processing sim mt p g = Inr (lat, ok, sim', g') \<longrightarrow>
          (\<exists>src dst g1 g2. select_endpoints (agents sim) g = Inr (src, dst, g1)
             \<and> src \<noteq> dst
             \<and> calculate_message_latency sim (region src) (region dst) p
                  (performance_class src) g1 = Inr (lat, g2)))
     \<and> (length (agents sim) < 2 \<longrightarrow>
          select_endpoints (agents sim) g = Inl IndexError
          \<and> simulate_message_processing sim mt p g = Inl IndexError)"
proof (intro impI conjI)
  assume v: "valid_rng g" and "distinct (agents sim) \<and> 2 \<le> length (agents sim)"
  then obtain src dst g1 where
    1: "select_endpoints (agents sim) g = Inr (src, dst, g1)"
    using select_endpoints_Inr [of "agents sim" g] by blast
  from select_endpoints_sound [OF v 1] 1
  show "\<exists>src dst g1. select_endpoints (agents sim) g = Inr (src, dst, g1)
           \<and> src \<in> set (agents sim) \<and> dst \<in> set (agents sim) \<and> src \<noteq> dst"
    by blast
next
  assume v: "valid_rng g"
    and "simulate_message_processing sim mt p g = Inr (lat, ok, sim', g')"
  from simulate_unfold [OF this(2)] obtain src dst g1 g2 where
    1: "select_endpoints (agents sim) g = Inr (src, dst, g1)" and
    2: "calculate_message_latency sim (region src) (region dst) p
          (performance_class src) g1 = Inr (lat, g2)" by blast
  from select_endpoints_sound [OF v 1] 1 2
  show "\<exists>src dst g1 g2. select_endpoints (agents sim) g = Inr (src, dst, g1)
             \<and> src \<noteq> dst
             \<and> calculate_message_latency sim (region src) (region dst) p
                  (performance_class src) g1 = Inr (lat, g2)"
    by blast
next
  assume v: "valid_rng g" and s: "length (agents sim) < 2"
  from select_endpoints_small [OF v s]
  show "select_endpoints (agents sim) g = Inl IndexError" .
  from simulate_message_processing_small [OF v s]
  show "simulate_message_processing sim mt p g = Inl IndexError" .
qed

theorem endpoint_selection_witness:
  "valid_rng example_rng
   \<and> distinct (agents example_simulator) \<and> 2 \<le> length (agents example_simulator)
   \<and> (\<exists>src dst g1. select_endpoints (agents example_simulator) example_rng = Inr (src, dst, g1)
         \<and> src \<in> set (agents example_simulator) \<and> dst \<in> set (agents example_simulator)
         \<and> src \<noteq> dst)
   \<and> length (agents (example_simulator\<lparr>agents := take 1 example_agents\<rparr>)) < 2
   \<and> simulate_message_processing (example_simulator\<lparr>agents := take 1 example_agents\<rparr>)
        CALL 10 example_rng = Inl IndexError
   \<and> simulate_message_processing (example_simulator\<lparr>agents := []\<rparr>)
        CALL 10 example_rng = Inl IndexError"
proof -
  have one: "length (agents (example_simulator\<lparr>agents := take 1 example_agents\<rparr>)) < 2"
    by (simp add: example_agents_def)
  have none: "length (agents (example_simulator\<lparr>agents := []\<rparr>)) < 2" by simp
  from endpoint_selection [of example_rng example_simulator] example_valid_rng
    example_population
  have a: "\<exists>src dst g1. select_endpoints (agents example_simulator) example_rng = Inr (src, dst, g1)
         \<and> src \<in> set (agents example_simulator) \<and> dst \<in> set (agents example_simulator)
         \<and> src \<noteq> dst" by blast
  from endpoint_selection [of example_rng "example_simulator\<lparr>agents := take 1 example_agents\<rparr>"
      CALL 10] example_valid_rng one
  have b: "simulate_message_processing (example_simulator\<lparr>agents := take 1 example_agents\<rparr>)
        CALL 10 example_rng = Inl IndexError" by blast
  from endpoint_selection [of example_rng "example_simulator\<lparr>agents := []\<rparr>" CALL 10]
    example_valid_rng none
  have c: "simulate_message_processing (example_simulator\<lparr>agents := []\<rparr>)
        CALL 10 example_rng = Inl IndexError" by blast
  from example_valid_rng example_population a one b c show ?thesis by blast
qed

text \<open>
  C9. Simulation does not change the population. A call of
  \<open>_simulate_message_processing\<close>, any number of them in sequence (the message
  loop) and a build run return the simulator as it was; a large-scale run
  returns it with \<open>simulation_time\<close> as the only attribute that can differ, so
  the agents with all their fields and the routers with all their counters are
  those of the start.
\<close>

theorem simulation_leaves_population_unchanged:
  "(simulate_message_processing sim mt p g = Inr (lat, ok, sim1, g1) \<longrightarrow> sim1 = sim)
   \<and> (message_loop n sim c g = Inr (c2, sim2, g2) \<longrightarrow> sim2 = sim)
   \<and> (run_large_scale_simulation sim d elapsed g = Inr (m, sim3, g3) \<longrightarrow>
        agents sim3 = agents sim \<and> routers sim3 = routers sim
        \<and> sim3 = sim\<lparr>simulation_time := simulation_time sim3\<rparr>)
   \<and> (run_build_system_simulation sim g = Inr (m4, sim4, g4) \<longrightarrow> sim4 = sim)"
proof (intro conjI impI)
  assume "simulate_message_processing sim mt p g = Inr (lat, ok, sim1, g1)"
  from simulate_unfold [OF this] show "sim1 = sim" by simp
next
  assume "message_loop n sim c g = Inr (c2, sim2, g2)"
  from message_loop_counts [OF this] show "sim2 = sim" by simp
next
  assume a: "run_large_scale_simulation sim d elapsed g = Inr (m, sim3, g3)"
  from run_large_scale_simulation_frame [OF a]
  show f: "sim3 = sim\<lparr>simulation_time := simulation_time sim3\<rparr>" .
  have "agents (sim\<lparr>simulation_time := simulation_time sim3\<rparr>) = agents sim"
    "routers (sim\<lparr>simulation_time := simulation_time sim3\<rparr>) = routers sim" by simp_all
  with f show "agents sim3 = agents sim" and "routers sim3 = routers sim" by simp_all
next
  assume "run_build_system_simulation sim g = Inr (m4, sim4, g4)"
  from run_build_system_simulation_unfold [OF this] obtain c g1 where
    "build_loop 1000 sim \<lparr>total_builds = 0, successful_builds = 0, build_latencies = []\<rparr> g
       = Inr (c, sim4, g1)" by blast
  from build_loop_trials [OF this] show "sim4 = sim" by blast
qed

theorem simulation_leaves_population_unchanged_witness:
  "(\<exists>lat ok g1. simulate_message_processing example_simulator CALL 10 example_rng
       = Inr (lat, ok, example_simulator, g1))
   \<and> (\<exists>m sim3 g3. run_large_scale_simulation example_simulator 300 1 example_rng
         = Inr (m, sim3, g3)
         \<and> agents sim3 = agents example_simulator \<and> routers sim3 = routers example_simulator)
   \<and> (\<exists>m4 g4. run_build_system_simulation example_simulator example_rng
         = Inr (m4, example_simulator, g4))"
proof -
  from example_simulate_message_processing obtain lat ok sim1 g1 where
    a: "simulate_message_processing example_simulator CALL 10 example_rng
          = Inr (lat, ok, sim1, g1)"
    by (auto split: sum.splits)
  have "(0 :: int) < 300" "(300 :: int) \<le> 900000" "(1 :: real) \<noteq> 0" by simp_all
  from run_large_scale_simulation_Inr [OF this example_weights_ok example_valid_rng]
    example_population
  obtain m sim3 g3 where
    b: "run_large_scale_simulation example_simulator 300 1 example_rng = Inr (m, sim3, g3)"
    by blast
  from run_build_system_simulation_Inr [OF example_weights_ok example_valid_rng]
    example_population
  obtain m4 g4 where
    c: "run_build_system_simulation example_simulator example_rng
          = Inr (m4, example_simulator, g4)" by blast
  note t = simulation_leaves_population_unchanged [where sim = example_simulator
      and mt = CALL and p = 10 and g = example_rng and lat = lat and ok = ok and ?sim1.0 = sim1
      and ?g1.0 = g1 and d = 300 and elapsed = 1 and m = m and ?sim3.0 = sim3 and ?g3.0 = g3]
  from t a have a': "sim1 = example_simulator" by blast
  from t b have b': "agents sim3 = agents example_simulator
      \<and> routers sim3 = routers example_simulator" by blast
  from a a' b b' c show ?thesis by blast
qed


lemma example_build_trial:
  "(case build_trial example_simulator example_rng_mixed
     of Inl e \<Rightarrow> False
      | Inr (t, s, sim, g) \<Rightarrow> t = 753 + 753 / 5 \<and> \<not> s \<and> py_pos g = 22)"
  by code_simp

lemma example_build_trial_stage_1:
  "(case simulate_message_processing example_simulator CALL
           (fst (random_uniform 50 200 example_rng_mixed))
           (snd (random_uniform 50 200 example_rng_mixed))
     of Inl e \<Rightarrow> False
      | Inr (l, s, sim, g) \<Rightarrow> l = 753 \<and> s \<and> py_pos g = 11)"
  by code_simp

lemma example_rng_mixed_valid: "valid_rng example_rng_mixed"
  by (simp add: valid_rng_def example_rng_mixed_def)

text \<open>
  C6. A build run that returns has executed 1000 trials and holds 1000 latency
  samples. The trials are those of \<open>stage_results\<close>: the two stage calls of each
  trial, made on the generator as the trials before left it. The sample of a
  trial is the sum of the latencies its own two stage calls returned, a trial
  counts as successful exactly when both of its stage outcomes are true, and the
  \<open>error_count\<close> of the metrics is 1000 minus the number of successful trials.
  The same holds for one trial alone: what \<open>build_trial\<close> returns is the sum and
  the conjunction of what its two stage calls, on its own generator, returned.
\<close>

theorem build_pipeline_counts:
  "(run_build_system_simulation sim g = Inr (m, sim', g') \<longrightarrow>
     (\<exists>c g1 trials.
        build_loop 1000 sim \<lparr>total_builds = 0, successful_builds = 0, build_latencies = []\<rparr> g
          = Inr (c, sim, g1)
        \<and> stage_results 1000 sim g = Inr (trials, g1)
        \<and> total_builds c = 1000
        \<and> length (build_latencies c) = 1000
        \<and> length trials = 1000
        \<and> build_latencies c = map (\<lambda>(l1, s1, l2, s2). l1 + l2) trials
        \<and> successful_builds c = length (filter (\<lambda>(l1, s1, l2, s2). s1 \<and> s2) trials)
        \<and> error_count m = 1000 - int (successful_builds c)
        \<and> latency_ms m = np_median (build_latencies c)))
   \<and> (build_trial sim h = Inr (t, s, sim2, h') \<longrightarrow>
        (\<exists>l1 s1 hb l2 s2.
           simulate_message_processing sim CALL (fst (random_uniform 50 200 h))
             (snd (random_uniform 50 200 h)) = Inr (l1, s1, sim, hb)
           \<and> simulate_message_processing sim CALL (fst (random_uniform 30 150 hb))
               (snd (random_uniform 30 150 hb)) = Inr (l2, s2, sim, h')
           \<and> t = l1 + l2 \<and> s = (s1 \<and> s2)))"
proof (intro conjI impI)
  assume "run_build_system_simulation sim g = Inr (m, sim', g')"
  from run_build_system_simulation_unfold [OF this] obtain c g1 where
    1: "build_loop 1000 sim \<lparr>total_builds = 0, successful_builds = 0, build_latencies = []\<rparr> g
          = Inr (c, sim', g1)" and
    e: "error_count m = int (total_builds c) - int (successful_builds c)" and
    l: "latency_ms m = np_median (build_latencies c)" by blast
  from build_loop_trials [OF 1] obtain trials where
    t: "stage_results 1000 sim g = Inr (trials, g1)"
      "length trials = 1000"
      "build_latencies c = map (\<lambda>(l1, s1, l2, s2). l1 + l2) trials"
      "successful_builds c = length (filter (\<lambda>(l1, s1, l2, s2). s1 \<and> s2) trials)"
      "total_builds c = 1000"
      "sim' = sim"
    by auto
  from t(2,3) have n: "length (build_latencies c) = 1000" by simp
  from e t(5) have e': "error_count m = 1000 - int (successful_builds c)" by simp
  from 1 t(6) have b1: "build_loop 1000 sim
      \<lparr>total_builds = 0, successful_builds = 0, build_latencies = []\<rparr> g = Inr (c, sim, g1)"
    by simp
  from b1 t(1,5) n t(2,3,4) e' l
  show "\<exists>c g1 trials.
        build_loop 1000 sim \<lparr>total_builds = 0, successful_builds = 0, build_latencies = []\<rparr> g
          = Inr (c, sim, g1)
        \<and> stage_results 1000 sim g = Inr (trials, g1)
        \<and> total_builds c = 1000
        \<and> length (build_latencies c) = 1000
        \<and> length trials = 1000
        \<and> build_latencies c = map (\<lambda>(l1, s1, l2, s2). l1 + l2) trials
        \<and> successful_builds c = length (filter (\<lambda>(l1, s1, l2, s2). s1 \<and> s2) trials)
        \<and> error_count m = 1000 - int (successful_builds c)
        \<and> latency_ms m = np_median (build_latencies c)"
    by blast
next
  assume "build_trial sim h = Inr (t, s, sim2, h')"
  from build_trial_stages [OF this]
  show "\<exists>l1 s1 hb l2 s2.
           simulate_message_processing sim CALL (fst (random_uniform 50 200 h))
             (snd (random_uniform 50 200 h)) = Inr (l1, s1, sim, hb)
           \<and> simulate_message_processing sim CALL (fst (random_uniform 30 150 hb))
               (snd (random_uniform 30 150 hb)) = Inr (l2, s2, sim, h')
           \<and> t = l1 + l2 \<and> s = (s1 \<and> s2)"
    by blast
qed

theorem build_pipeline_counts_witness:
  "(\<exists>m g' c g1 trials. run_build_system_simulation example_simulator example_rng_mixed
        = Inr (m, example_simulator, g')
     \<and> build_loop 1000 example_simulator
          \<lparr>total_builds = 0, successful_builds = 0, build_latencies = []\<rparr> example_rng_mixed
        = Inr (c, example_simulator, g1)
     \<and> stage_results 1000 example_simulator example_rng_mixed = Inr (trials, g1)
     \<and> length (build_latencies c) = 1000
     \<and> build_latencies c = map (\<lambda>(l1, s1, l2, s2). l1 + l2) trials
     \<and> successful_builds c = length (filter (\<lambda>(l1, s1, l2, s2). s1 \<and> s2) trials)
     \<and> error_count m = 1000 - int (successful_builds c))
   \<and> (\<exists>h' hb l2 s2.
         build_trial example_simulator example_rng_mixed
           = Inr (753 + 753 / 5, False, example_simulator, h')
         \<and> simulate_message_processing example_simulator CALL
               (fst (random_uniform 50 200 example_rng_mixed))
               (snd (random_uniform 50 200 example_rng_mixed))
             = Inr (753, True, example_simulator, hb)
         \<and> simulate_message_processing example_simulator CALL
               (fst (random_uniform 30 150 hb)) (snd (random_uniform 30 150 hb))
             = Inr (l2, s2, example_simulator, h')
         \<and> (753 + 753 / 5 :: real) = 753 + l2 \<and> False = (True \<and> s2))"
proof -
  from run_build_system_simulation_Inr [OF example_weights_ok example_rng_mixed_valid]
    example_population
  obtain m g' where
    r: "run_build_system_simulation example_simulator example_rng_mixed
          = Inr (m, example_simulator, g')" by blast
  note t = build_pipeline_counts [where sim = example_simulator and g = example_rng_mixed
      and m = m and sim' = example_simulator and g' = g' and h = example_rng_mixed]
  from t r obtain c g1 trials where
    a: "build_loop 1000 example_simulator
        \<lparr>total_builds = 0, successful_builds = 0, build_latencies = []\<rparr> example_rng_mixed
      = Inr (c, example_simulator, g1)
     \<and> stage_results 1000 example_simulator example_rng_mixed = Inr (trials, g1)
     \<and> length (build_latencies c) = 1000
     \<and> build_latencies c = map (\<lambda>(l1, s1, l2, s2). l1 + l2) trials
     \<and> successful_builds c = length (filter (\<lambda>(l1, s1, l2, s2). s1 \<and> s2) trials)
     \<and> error_count m = 1000 - int (successful_builds c)" by blast
  from example_build_trial obtain sim2 h' where
    b: "build_trial example_simulator example_rng_mixed = Inr (753 + 753 / 5, False, sim2, h')"
    by (auto split: sum.splits)
  from example_build_trial_stage_1 obtain sim3 hb0 where
    s1: "simulate_message_processing example_simulator CALL
           (fst (random_uniform 50 200 example_rng_mixed))
           (snd (random_uniform 50 200 example_rng_mixed)) = Inr (753, True, sim3, hb0)"
    by (auto split: sum.splits)
  from t [where t = "753 + 753 / 5" and s = False and ?sim2.0 = sim2 and h' = h'] b
  obtain l1 s1' hb l2 s2 where
    c1: "simulate_message_processing example_simulator CALL
           (fst (random_uniform 50 200 example_rng_mixed))
           (snd (random_uniform 50 200 example_rng_mixed)) = Inr (l1, s1', example_simulator, hb)"
    and c2: "simulate_message_processing example_simulator CALL
               (fst (random_uniform 30 150 hb)) (snd (random_uniform 30 150 hb))
             = Inr (l2, s2, example_simulator, h')"
    and c3: "(753 + 753 / 5 :: real) = l1 + l2" "False = (s1' \<and> s2)"
    by blast
  from s1 c1 have eq: "l1 = 753" "s1' = True" "sim3 = example_simulator" "hb0 = hb" by simp_all
  from build_trial_stages [OF b] have "sim2 = example_simulator" by simp
  with b have b': "build_trial example_simulator example_rng_mixed
      = Inr (753 + 753 / 5, False, example_simulator, h')" by simp
  from c1 c2 c3 eq have d: "simulate_message_processing example_simulator CALL
               (fst (random_uniform 50 200 example_rng_mixed))
               (snd (random_uniform 50 200 example_rng_mixed))
             = Inr (753, True, example_simulator, hb)
         \<and> simulate_message_processing example_simulator CALL
               (fst (random_uniform 30 150 hb)) (snd (random_uniform 30 150 hb))
             = Inr (l2, s2, example_simulator, h')
         \<and> (753 + 753 / 5 :: real) = 753 + l2 \<and> False = (True \<and> s2)"
    by simp
  from r a b' d show ?thesis by blast
qed

end
